theory Spec2Isabelle
  imports Main "HOL-Library.Word"
begin

unbundle bit_operations_syntax

section \<open>Data model of openid/idtokenvalidator.go\<close>

text \<open>
  A value of Go's \<^verbatim>\<open>interface{}\<close> as the JSON decoder of the token parser produces it.
  \<open>JNull\<close> is the nil interface: it is what a JSON null decodes to and also what reading a
  missing key of a Go map returns. The validator never looks inside a number, a boolean or
  an object; it only asks whether a value is a string or a list.
\<close>

datatype jval =
    JNull
  | JBool bool
  | JNum int
  | JStr string
  | JArr "jval list"
  | JObj "(string \<times> jval) list"

text \<open>
  \<^verbatim>\<open>jwt.Token\<close>, restricted to the two fields the validator reads. \<^verbatim>\<open>Claims\<close> is a
  \<^verbatim>\<open>jwt.MapClaims\<close>, a map from claim names to values, as the parser produces it, so the
  assertion \<^verbatim>\<open>jt.Claims.(jwt.MapClaims)\<close> cannot fail; \<^verbatim>\<open>Header\<close> is a map of the same kind.
\<close>

record token =
  Header :: "string \<rightharpoonup> jval"
  Claims :: "string \<rightharpoonup> jval"

text \<open>Reading a Go map: a missing key gives the zero value, the nil interface.\<close>

definition lookup :: "(string \<rightharpoonup> jval) \<Rightarrow> string \<Rightarrow> jval" where
  "lookup m k = (case m k of None \<Rightarrow> JNull | Some v \<Rightarrow> v)"

text \<open>The checked type assertion \<^verbatim>\<open>s, ok := v.(string)\<close>; \<open>None\<close> is \<^verbatim>\<open>ok == false\<close>.\<close>

fun as_string :: "jval \<Rightarrow> string option" where
  "as_string (JStr s) = Some s"
| "as_string _ = None"

record Provider =
  Issuer :: string
  ClientIDs :: "string list"

text \<open>
  The error codes that this file constructs. The declaration of the codes is in another
  file of the package; the names are the ones the source uses.
\<close>

datatype ValidationErrorCode =
    ValidationErrorInvalidIssuerType
  | ValidationErrorInvalidIssuer
  | ValidationErrorIssuerNotFound
  | ValidationErrorInvalidAudienceType
  | ValidationErrorInvalidAudience
  | ValidationErrorAudienceNotFound
  | ValidationErrorInvalidSubjectType
  | ValidationErrorInvalidSubject

text \<open>
  A message is kept as the format string of \<^verbatim>\<open>fmt.Sprintf\<close> together with its operands;
  the rendering done by package fmt is not part of this development. A literal message has
  no operands.
\<close>

datatype fmt_operand = OpValue jval | OpString string | OpSlice "jval list"

datatype message = Sprintf string "fmt_operand list"

record ValidationError =
  Code :: ValidationErrorCode
  Message :: message
  HTTPStatus :: int

text \<open>\<^verbatim>\<open>http.StatusUnauthorized\<close> of net/http.\<close>

definition StatusUnauthorized :: int where
  "StatusUnauthorized = 401"

definition issuerClaimName :: string where
  "issuerClaimName = ''iss''"

definition audiencesClaimName :: string where
  "audiencesClaimName = ''aud''"

definition subjectClaimName :: string where
  "subjectClaimName = ''sub''"

definition keyIDJwtHeaderName :: string where
  "keyIDJwtHeaderName = ''kid''"

section \<open>Claim extraction and claim validation\<close>

definition getIssuer :: "token \<Rightarrow> jval" where
  "getIssuer t = lookup (Claims t) issuerClaimName"

definition getSubject :: "token \<Rightarrow> jval" where
  "getSubject t = lookup (Claims t) subjectClaimName"

text \<open>\<^verbatim>\<open>kid, _ := jt.Header["kid"].(string)\<close>: a failed assertion leaves the empty string.\<close>

definition getTokenKid :: "token \<Rightarrow> string" where
  "getTokenKid jt =
     (case as_string (lookup (Header jt) keyIDJwtHeaderName) of
        Some kid \<Rightarrow> kid
      | None \<Rightarrow> [])"

text \<open>
  The loop of \<^verbatim>\<open>validateIssuer\<close> over the providers, in slice order. The code returns the
  address of the loop variable; the model returns the provider it holds.
\<close>

fun issuer_loop :: "string \<Rightarrow> string \<Rightarrow> Provider list \<Rightarrow> Provider option" where
  "issuer_loop ti gi [] = None"
| "issuer_loop ti gi (p # ps) =
     (if ti = Issuer p \<or> gi = Issuer p then Some p else issuer_loop ti gi ps)"

definition validateIssuer :: "token \<Rightarrow> Provider list \<Rightarrow> ValidationError + Provider" where
  "validateIssuer jt ps =
     (let issuerClaim = getIssuer jt in
      case as_string issuerClaim of
        None \<Rightarrow>
          Inl \<lparr>Code = ValidationErrorInvalidIssuerType,
               Message = Sprintf ''Invalid Issuer type: %T'' [OpValue issuerClaim],
               HTTPStatus = StatusUnauthorized\<rparr>
      | Some ti \<Rightarrow>
          if ti = [] then
            Inl \<lparr>Code = ValidationErrorInvalidIssuer,
                 Message = Sprintf ''The token 'iss' claim was not found or was empty.'' [],
                 HTTPStatus = StatusUnauthorized\<rparr>
          else
            let gi = (if ti = ''accounts.google.com'' then ''https://'' @ ti else ti) in
            case issuer_loop ti gi ps of
              Some p \<Rightarrow> Inr p
            | None \<Rightarrow>
                Inl \<lparr>Code = ValidationErrorIssuerNotFound,
                     Message = Sprintf ''No provider was registered with issuer: %v'' [OpString ti],
                     HTTPStatus = StatusUnauthorized\<rparr>)"

definition validateSubject :: "token \<Rightarrow> ValidationError + string" where
  "validateSubject jt =
     (let subjectClaim = getSubject jt in
      case as_string subjectClaim of
        None \<Rightarrow>
          Inl \<lparr>Code = ValidationErrorInvalidSubjectType,
               Message = Sprintf ''Invalid subject type: %T'' [OpValue subjectClaim],
               HTTPStatus = StatusUnauthorized\<rparr>
      | Some ts \<Rightarrow>
          if ts = [] then
            Inl \<lparr>Code = ValidationErrorInvalidSubject,
                 Message = Sprintf ''The token 'sub' claim was not found or was empty.'' [],
                 HTTPStatus = StatusUnauthorized\<rparr>
          else Inr ts)"

definition getAudiences :: "token \<Rightarrow> ValidationError + jval list" where
  "getAudiences t =
     (let audiencesClaim = lookup (Claims t) audiencesClaimName in
      case audiencesClaim of
        JStr aud \<Rightarrow> Inr [JStr aud]
      | JArr xs \<Rightarrow> Inr xs
      | _ \<Rightarrow>
          Inl \<lparr>Code = ValidationErrorInvalidAudienceType,
               Message = Sprintf ''Invalid Audiences type: %T'' [OpValue audiencesClaim],
               HTTPStatus = StatusUnauthorized\<rparr>)"

text \<open>
  The inner loop of \<^verbatim>\<open>validateAudiences\<close>: one configured client identifier \<open>aud\<close> against
  the audience entries in claim order. \<open>None\<close> means that the loop ran to its end without a
  \<^verbatim>\<open>return\<close>. The first argument is the whole audience slice, which the type error prints.
  The line that the code writes to standard output before the type error is left out.
\<close>

fun audience_loop :: "jval list \<Rightarrow> string \<Rightarrow> jval list \<Rightarrow> (ValidationError + string) option" where
  "audience_loop audiencesClaim aud [] = None"
| "audience_loop audiencesClaim aud (audienceClaim # rest) =
     (case as_string audienceClaim of
        None \<Rightarrow>
          Some (Inl \<lparr>Code = ValidationErrorInvalidAudienceType,
                     Message = Sprintf ''Invalid Audiences type: %T'' [OpSlice audiencesClaim],
                     HTTPStatus = StatusUnauthorized\<rparr>)
      | Some ta \<Rightarrow>
          if ta = [] then
            Some (Inl \<lparr>Code = ValidationErrorInvalidAudience,
                       Message = Sprintf ''The token 'aud' claim was not found or was empty.'' [],
                       HTTPStatus = StatusUnauthorized\<rparr>)
          else if ta = aud then Some (Inr ta)
          else audience_loop audiencesClaim aud rest)"

text \<open>The outer loop over \<^verbatim>\<open>p.ClientIDs\<close>, and the error after it.\<close>

fun client_loop :: "Provider \<Rightarrow> jval list \<Rightarrow> string list \<Rightarrow> ValidationError + string" where
  "client_loop p audiencesClaim [] =
     Inl \<lparr>Code = ValidationErrorAudienceNotFound,
          Message = Sprintf
            ''The provider %v does not have a client id matching any of the token audiences %+v''
            [OpString (Issuer p), OpSlice audiencesClaim],
          HTTPStatus = StatusUnauthorized\<rparr>"
| "client_loop p audiencesClaim (aud # auds) =
     (case audience_loop audiencesClaim aud audiencesClaim of
        Some r \<Rightarrow> r
      | None \<Rightarrow> client_loop p audiencesClaim auds)"

definition validateAudiences :: "token \<Rightarrow> Provider \<Rightarrow> ValidationError + string" where
  "validateAudiences jt p =
     (case getAudiences jt of
        Inl err \<Rightarrow> Inl err
      | Inr audiencesClaim \<Rightarrow> client_loop p audiencesClaim (ClientIDs p))"

section \<open>Errors, collaborators and the call trace\<close>

text \<open>
  Modelled from the spec: the method \<^verbatim>\<open>validate\<close> of the type \<^verbatim>\<open>providers\<close>, which
  \<^verbatim>\<open>getSigningKey\<close> calls, is declared in another file of the package. The spec describes it:
  the list is non-empty and each provider is well-formed (non-empty issuer, at least one
  client identifier), failing otherwise. The error value is not described; \<open>InvalidProviders\<close>
  stands for it.
\<close>

datatype providers_error = InvalidProviders

definition providers_validate :: "Provider list \<Rightarrow> providers_error option" where
  "providers_validate ps =
     (if ps \<noteq> [] \<and> list_all (\<lambda>p. Issuer p \<noteq> [] \<and> ClientIDs p \<noteq> []) ps
      then None else Some InvalidProviders)"

text \<open>
  A value of Go's \<^verbatim>\<open>error\<close> interface as this file can meet it: a \<^verbatim>\<open>*ValidationError\<close>
  of this package, the error of the provider list check, a \<^verbatim>\<open>*jwt.ValidationError\<close> of the
  parser library with its bit field \<^verbatim>\<open>Errors\<close> and its wrapped \<^verbatim>\<open>Inner\<close> error, or any other
  error value of a collaborator, which stays opaque.
\<close>

datatype 'x error =
    OpenIDError ValidationError
  | ProvidersError providers_error
  | JwtValidationError "32 word" "'x error option"
  | OtherError 'x

text \<open>
  \<^verbatim>\<open>jwt.ValidationErrorSignatureInvalid\<close>, a constant of the parser library: the third of its
  flags, \<^verbatim>\<open>1 << 2\<close>.
\<close>

definition ValidationErrorSignatureInvalid :: "32 word" where
  "ValidationErrorSignatureInvalid = push_bit 2 1"

text \<open>
  The test of \<^verbatim>\<open>validate\<close>: the error is a \<^verbatim>\<open>*jwt.ValidationError\<close> and
  \<^verbatim>\<open>verr.Errors & jwt.ValidationErrorSignatureInvalid != 0\<close>.
\<close>

fun signature_invalid :: "'x error \<Rightarrow> bool" where
  "signature_invalid (JwtValidationError errs inner) =
     (errs AND ValidationErrorSignatureInvalid \<noteq> 0)"
| "signature_invalid _ = False"

type_synonym bytes = "8 word list"

text \<open>
  The token parser (\<^verbatim>\<open>jwtParserFunc\<close>) is a collaborator: a function of the token string and
  of a key callback. It is taken in two phases around the one call of the callback that its
  contract allows: \<open>decode_token\<close> either fails without asking for a key or produces the
  token handed to the callback; \<open>verify_token\<close> receives what the callback returned and
  decides the result of the parse. Both may read and change the world \<open>'w\<close> of the
  collaborators.
\<close>

record ('w, 'x, 'k) jwtParserFunc =
  decode_token :: "string \<Rightarrow> 'w \<Rightarrow> ('x error + token) \<times> 'w"
  verify_token :: "string \<Rightarrow> token \<Rightarrow> 'x error + 'k \<Rightarrow> 'w \<Rightarrow> ('x error + token) \<times> 'w"

text \<open>
  \<^verbatim>\<open>idTokenValidator\<close>: the four collaborators. The interface \<^verbatim>\<open>signingKeyGetter\<close> has the
  two methods that this file calls. \<open>'r\<close> is the request, \<open>'k\<close> the decoded public key.
\<close>

record ('r, 'w, 'x, 'k) idTokenValidator =
  provGetter :: "'w \<Rightarrow> ('x error + Provider list) \<times> 'w"
  jwtParser :: "('w, 'x, 'k) jwtParserFunc"
  keyGetter_getSigningKey :: "'r \<Rightarrow> string \<Rightarrow> string \<Rightarrow> 'w \<Rightarrow> ('x error + bytes) \<times> 'w"
  keyGetter_flushCachedSigningKeys :: "string \<Rightarrow> 'w \<Rightarrow> 'x error option \<times> 'w"
  rsaParser :: "bytes \<Rightarrow> 'w \<Rightarrow> ('x error + 'k) \<times> 'w"

text \<open>
  Every call of a collaborator is recorded, in call order, with the arguments that the
  properties below speak about. Only the call sites below extend the trace; the
  collaborators see the world alone.
\<close>

datatype event =
    EvParse string
  | EvProvGetter
  | EvFlushCachedSigningKeys string
  | EvGetSigningKey string string
  | EvRsaParser bytes

record 'w state =
  world :: 'w
  trace :: "event list"

definition call_provGetter ::
  "('r, 'w, 'x, 'k) idTokenValidator \<Rightarrow> 'w state \<Rightarrow> ('x error + Provider list) \<times> 'w state" where
  "call_provGetter tv s =
     (case provGetter tv (world s) of
        (res, w) \<Rightarrow> (res, \<lparr>world = w, trace = trace s @ [EvProvGetter]\<rparr>))"

definition call_flushCachedSigningKeys ::
  "('r, 'w, 'x, 'k) idTokenValidator \<Rightarrow> string \<Rightarrow> 'w state \<Rightarrow> 'x error option \<times> 'w state" where
  "call_flushCachedSigningKeys tv iss s =
     (case keyGetter_flushCachedSigningKeys tv iss (world s) of
        (res, w) \<Rightarrow> (res, \<lparr>world = w, trace = trace s @ [EvFlushCachedSigningKeys iss]\<rparr>))"

definition call_getSigningKey ::
  "('r, 'w, 'x, 'k) idTokenValidator \<Rightarrow> 'r \<Rightarrow> string \<Rightarrow> string \<Rightarrow> 'w state
     \<Rightarrow> ('x error + bytes) \<times> 'w state" where
  "call_getSigningKey tv r iss kid s =
     (case keyGetter_getSigningKey tv r iss kid (world s) of
        (res, w) \<Rightarrow> (res, \<lparr>world = w, trace = trace s @ [EvGetSigningKey iss kid]\<rparr>))"

definition call_rsaParser ::
  "('r, 'w, 'x, 'k) idTokenValidator \<Rightarrow> bytes \<Rightarrow> 'w state \<Rightarrow> ('x error + 'k) \<times> 'w state" where
  "call_rsaParser tv key s =
     (case rsaParser tv key (world s) of
        (res, w) \<Rightarrow> (res, \<lparr>world = w, trace = trace s @ [EvRsaParser key]\<rparr>))"

text \<open>A Go function either panics or returns.\<close>

datatype 'a outcome = Panic | Return 'a

section \<open>The key callbacks and the orchestrator\<close>

text \<open>
  \<^verbatim>\<open>renewAndGetSigningKey\<close>. The issuer is read with the unchecked assertion
  \<^verbatim>\<open>jt.Claims.(jwt.MapClaims)[issuerClaimName].(string)\<close>, which panics on a value that is
  not a string.
\<close>

definition renewAndGetSigningKey ::
  "('r, 'w, 'x, 'k) idTokenValidator \<Rightarrow> 'r \<Rightarrow> token \<Rightarrow> 'w state
     \<Rightarrow> ('x error + 'k) outcome \<times> 'w state" where
  "renewAndGetSigningKey tv r jt s =
     (case as_string (lookup (Claims jt) issuerClaimName) of
        None \<Rightarrow> (Panic, s)
      | Some iss \<Rightarrow>
          (case call_flushCachedSigningKeys tv iss s of
             (Some err, s1) \<Rightarrow> (Return (Inl err), s1)
           | (None, s1) \<Rightarrow>
               let kid = getTokenKid jt in
               (case call_getSigningKey tv r iss kid s1 of
                  (Inr key, s2) \<Rightarrow>
                    (case call_rsaParser tv key s2 of (res, s3) \<Rightarrow> (Return res, s3))
                | (Inl err, s2) \<Rightarrow> (Return (Inl err), s2))))"

text \<open>\<^verbatim>\<open>getSigningKey\<close>, the callback of the first parse.\<close>

definition getSigningKey ::
  "('r, 'w, 'x, 'k) idTokenValidator \<Rightarrow> 'r \<Rightarrow> token \<Rightarrow> 'w state
     \<Rightarrow> ('x error + 'k) outcome \<times> 'w state" where
  "getSigningKey tv r jt s =
     (case call_provGetter tv s of
        (Inl err, s1) \<Rightarrow> (Return (Inl err), s1)
      | (Inr provs, s1) \<Rightarrow>
          (case providers_validate provs of
             Some err \<Rightarrow> (Return (Inl (ProvidersError err)), s1)
           | None \<Rightarrow>
               (case validateIssuer jt provs of
                  Inl err \<Rightarrow> (Return (Inl (OpenIDError err)), s1)
                | Inr p \<Rightarrow>
                    (case validateAudiences jt p of
                       Inl err \<Rightarrow> (Return (Inl (OpenIDError err)), s1)
                     | Inr _ \<Rightarrow>
                         (case validateSubject jt of
                            Inl err \<Rightarrow> (Return (Inl (OpenIDError err)), s1)
                          | Inr _ \<Rightarrow>
                              let kid = getTokenKid jt in
                              (case call_getSigningKey tv r (Issuer p) kid s1 of
                                 (Inr key, s2) \<Rightarrow>
                                   (case call_rsaParser tv key s2 of
                                      (res, s3) \<Rightarrow> (Return res, s3))
                               | (Inl err, s2) \<Rightarrow> (Return (Inl err), s2)))))))"

text \<open>
  One call \<^verbatim>\<open>tv.jwtParser(t, keyFunc)\<close>. A panic of the callback unwinds through the
  parser.
\<close>

definition call_jwtParser ::
  "('r, 'w, 'x, 'k) idTokenValidator \<Rightarrow> string
     \<Rightarrow> (token \<Rightarrow> 'w state \<Rightarrow> ('x error + 'k) outcome \<times> 'w state)
     \<Rightarrow> 'w state \<Rightarrow> ('x error + token) outcome \<times> 'w state" where
  "call_jwtParser tv t keyFunc s =
     (case decode_token (jwtParser tv) t (world s) of
        (Inl err, w1) \<Rightarrow> (Return (Inl err), \<lparr>world = w1, trace = trace s @ [EvParse t]\<rparr>)
      | (Inr tok, w1) \<Rightarrow>
          (case keyFunc tok \<lparr>world = w1, trace = trace s @ [EvParse t]\<rparr> of
             (Panic, s2) \<Rightarrow> (Panic, s2)
           | (Return key, s2) \<Rightarrow>
               (case verify_token (jwtParser tv) t tok key (world s2) of
                  (res, w3) \<Rightarrow> (Return res, \<lparr>world = w3, trace = trace s2\<rparr>))))"

text \<open>
  \<^verbatim>\<open>validate\<close>. The function \<^verbatim>\<open>jwtErrorToOpenIDError\<close> is declared in another file of the
  package and is taken as a parameter; what it returns is handed to the caller as the error.
\<close>

definition validate ::
  "('x error \<Rightarrow> 'x error) \<Rightarrow> ('r, 'w, 'x, 'k) idTokenValidator \<Rightarrow> 'r \<Rightarrow> string
     \<Rightarrow> 'w state \<Rightarrow> ('x error + token) outcome \<times> 'w state" where
  "validate jwtErrorToOpenIDError tv r t s =
     (case call_jwtParser tv t (getSigningKey tv r) s of
        (Panic, s1) \<Rightarrow> (Panic, s1)
      | (Return (Inr jt), s1) \<Rightarrow> (Return (Inr jt), s1)
      | (Return (Inl err), s1) \<Rightarrow>
          (case (if signature_invalid err
                 then call_jwtParser tv t (renewAndGetSigningKey tv r) s1
                 else (Return (Inl err), s1)) of
             (Panic, s2) \<Rightarrow> (Panic, s2)
           | (Return (Inr jt), s2) \<Rightarrow> (Return (Inr jt), s2)
           | (Return (Inl err2), s2) \<Rightarrow>
               (Return (Inl (jwtErrorToOpenIDError err2)), s2)))"

section \<open>Vocabulary of the specification\<close>

text \<open>
  The matching rule of the issuer matcher in the words of the specification: the claim
  verbatim, and for the claim \<^verbatim>\<open>accounts.google.com\<close> also its prefixed form.
\<close>

definition issuer_matches :: "string \<Rightarrow> Provider \<Rightarrow> bool" where
  "issuer_matches claim p =
     (claim = Issuer p \<or>
      (claim = ''accounts.google.com'' \<and> ''https://accounts.google.com'' = Issuer p))"

text \<open>The first configured client identifier, in configured order, that is an audience entry.\<close>

definition first_matching_client :: "string list \<Rightarrow> jval list \<Rightarrow> string option" where
  "first_matching_client cids auds = find (\<lambda>c. JStr c \<in> set auds) cids"

text \<open>
  An audience entry at which the scan for the client identifier \<open>c\<close> stops: one that is not
  a string, the empty string, or the client identifier itself.
\<close>

definition audience_stop :: "string \<Rightarrow> jval \<Rightarrow> bool" where
  "audience_stop c e = (as_string e = None \<or> e = JStr [] \<or> e = JStr c)"

text \<open>
  The outcome of audience matching on a normalized audience sequence, by error code. With no
  configured client identifier nothing is inspected. Otherwise the first stopping entry for
  the first client identifier decides; when there is none, every entry is a non-empty string
  and the remaining client identifiers are matched in order.
\<close>

definition audience_outcome :: "string list \<Rightarrow> jval list \<Rightarrow> ValidationErrorCode + string" where
  "audience_outcome cids auds =
     (case cids of
        [] \<Rightarrow> Inl ValidationErrorAudienceNotFound
      | c # cs \<Rightarrow>
          (case find (audience_stop c) auds of
             Some e \<Rightarrow>
               (case as_string e of
                  None \<Rightarrow> Inl ValidationErrorInvalidAudienceType
                | Some ta \<Rightarrow> if ta = [] then Inl ValidationErrorInvalidAudience else Inr ta)
           | None \<Rightarrow>
               (case first_matching_client cs auds of
                  Some c' \<Rightarrow> Inr c'
                | None \<Rightarrow> Inl ValidationErrorAudienceNotFound)))"

text \<open>Classifying and counting the recorded calls.\<close>

fun is_parse :: "event \<Rightarrow> bool" where
  "is_parse (EvParse t) = True"
| "is_parse _ = False"

fun is_getSigningKey :: "event \<Rightarrow> bool" where
  "is_getSigningKey (EvGetSigningKey iss kid) = True"
| "is_getSigningKey _ = False"

text \<open>The calls recorded between a state \<open>s\<close> and a later state \<open>s'\<close>.\<close>

definition new_events :: "'w state \<Rightarrow> 'w state \<Rightarrow> event list" where
  "new_events s s' = drop (length (trace s)) (trace s')"

definition parse_count :: "event list \<Rightarrow> nat" where
  "parse_count evs = length (filter is_parse evs)"

text \<open>
  The provider list passes its check and the three claim validations succeed, in the order
  issuer, audience, subject; the result is the matched provider.
\<close>

definition accepted_provider :: "token \<Rightarrow> Provider list \<Rightarrow> Provider option" where
  "accepted_provider jt provs =
     (case providers_validate provs of
        Some _ \<Rightarrow> None
      | None \<Rightarrow>
          (case validateIssuer jt provs of
             Inl _ \<Rightarrow> None
           | Inr p \<Rightarrow>
               (case validateAudiences jt p of
                  Inl _ \<Rightarrow> None
                | Inr _ \<Rightarrow> (case validateSubject jt of Inl _ \<Rightarrow> None | Inr _ \<Rightarrow> Some p))))"

text \<open>
  The calls of signing-key resolution from the world \<open>w\<close>: one fetch from the key resolver and,
  when it delivers a key, one call of the decoder.
\<close>

definition key_fetch_events ::
  "('r, 'w, 'x, 'k) idTokenValidator \<Rightarrow> 'r \<Rightarrow> string \<Rightarrow> string \<Rightarrow> 'w \<Rightarrow> event list" where
  "key_fetch_events tv r iss kid w =
     EvGetSigningKey iss kid #
       (case fst (keyGetter_getSigningKey tv r iss kid w) of
          Inl _ \<Rightarrow> []
        | Inr key \<Rightarrow> [EvRsaParser key])"

text \<open>
  The first parse attempt failed with a validation error of the parser that carries the
  signature-invalid flag.
\<close>

fun retry_needed :: "('x error + token) outcome \<Rightarrow> bool" where
  "retry_needed (Return (Inl err)) = signature_invalid err"
| "retry_needed _ = False"

text \<open>The end of \<^verbatim>\<open>validate\<close>: an error is translated, a token or a panic is passed on.\<close>

definition finish ::
  "('x error \<Rightarrow> 'x error) \<Rightarrow> ('x error + token) outcome \<times> 'w state
     \<Rightarrow> ('x error + token) outcome \<times> 'w state" where
  "finish jwtErrorToOpenIDError res =
     (map_outcome (map_sum jwtErrorToOpenIDError id) (fst res), snd res)"

section \<open>Example inputs\<close>

text \<open>
  The scenario of the specification: one provider, a token addressed to its client and bound
  to the key identifier \<^verbatim>\<open>k1\<close>. The world of the example collaborators is the number of cache
  flushes so far: the key resolver serves the outdated key \<open>[1]\<close> until the first flush and the
  current key \<open>[2]\<close> afterwards. The example parser accepts the token string \<^verbatim>\<open>good\<close> and
  verifies its signature under the key \<open>[2]\<close> only; as the parser library does, it reports a
  failed callback as unverifiable (flag 2), a malformed token with flag 1 and a signature
  mismatch with flag 4.
\<close>

definition example_provider :: Provider where
  "example_provider = \<lparr>Issuer = ''https://idp.example'', ClientIDs = [''client-1'']\<rparr>"

definition example_token :: token where
  "example_token =
     \<lparr>Header = [''kid'' \<mapsto> JStr ''k1''],
      Claims = [''iss'' \<mapsto> JStr ''https://idp.example'',
                ''aud'' \<mapsto> JStr ''client-1'',
                ''sub'' \<mapsto> JStr ''user-42'']\<rparr>"

definition example_parser :: "(nat, string, bytes) jwtParserFunc" where
  "example_parser =
     \<lparr>decode_token = (\<lambda>t w.
        if t = ''good'' then (Inr example_token, w)
        else (Inl (JwtValidationError 1 None), w)),
      verify_token = (\<lambda>t tok res w.
        case res of
          Inl err \<Rightarrow> (Inl (JwtValidationError 2 (Some err)), w)
        | Inr key \<Rightarrow>
            if key = [2] then (Inr tok, w) else (Inl (JwtValidationError 4 None), w))\<rparr>"

definition example_validator :: "(unit, nat, string, bytes) idTokenValidator" where
  "example_validator =
     \<lparr>provGetter = (\<lambda>w. (Inr [example_provider], w)),
      jwtParser = example_parser,
      keyGetter_getSigningKey = (\<lambda>r iss kid w. (Inr [if w = 0 then 1 else 2], w)),
      keyGetter_flushCachedSigningKeys = (\<lambda>iss w. (None, Suc w)),
      rsaParser = (\<lambda>key w. (Inr key, w))\<rparr>"

text \<open>A key resolver whose cache flush has no effect: it serves the outdated key for ever.\<close>

definition stale_validator :: "(unit, nat, string, bytes) idTokenValidator" where
  "stale_validator =
     example_validator\<lparr>keyGetter_getSigningKey := (\<lambda>r iss kid w. (Inr [1], w))\<rparr>"

text \<open>A provider source that does not know the issuer of the example token.\<close>

definition foreign_validator :: "(unit, nat, string, bytes) idTokenValidator" where
  "foreign_validator =
     example_validator\<lparr>provGetter :=
       (\<lambda>w. (Inr [\<lparr>Issuer = ''https://other.example'', ClientIDs = [''client-1'']\<rparr>], w))\<rparr>"

text \<open>Tokens that lack claims, and the issuer forms of the Google workaround.\<close>

definition empty_token :: token where
  "empty_token = \<lparr>Header = Map.empty, Claims = Map.empty\<rparr>"

definition issuer_only_token :: token where
  "issuer_only_token =
     \<lparr>Header = Map.empty, Claims = [''iss'' \<mapsto> JStr ''https://idp.example'']\<rparr>"

definition no_subject_token :: token where
  "no_subject_token =
     \<lparr>Header = [''kid'' \<mapsto> JNum 7],
      Claims = [''iss'' \<mapsto> JStr ''https://idp.example'', ''aud'' \<mapsto> JArr [JStr ''client-1'']]\<rparr>"

definition google_token :: token where
  "google_token =
     \<lparr>Header = Map.empty, Claims = [''iss'' \<mapsto> JStr ''accounts.google.com'']\<rparr>"

definition google_https_token :: token where
  "google_https_token =
     \<lparr>Header = Map.empty, Claims = [''iss'' \<mapsto> JStr ''https://accounts.google.com'']\<rparr>"

definition google_provider :: Provider where
  "google_provider = \<lparr>Issuer = ''https://accounts.google.com'', ClientIDs = [''client-1'']\<rparr>"

text \<open>The audiences \<open>[B, A]\<close> of the order-sensitivity scenario.\<close>

definition ba_token :: token where
  "ba_token = \<lparr>Header = Map.empty, Claims = [''aud'' \<mapsto> JArr [JStr ''B'', JStr ''A'']]\<rparr>"

section \<open>Auxiliary facts\<close>

lemma lookup_Some: "m k = Some v \<Longrightarrow> lookup m k = v"
  by (simp add: lookup_def)

lemma lookup_None: "m k = None \<Longrightarrow> lookup m k = JNull"
  by (simp add: lookup_def)

lemma as_string_Some [simp]: "as_string a = Some s \<longleftrightarrow> a = JStr s"
  by (cases a) auto

lemma find_member: "find P xs = Some x \<Longrightarrow> x \<in> set xs \<and> P x"
  by (induction xs) (auto split: if_splits)

lemmas call_defs =
  call_provGetter_def call_flushCachedSigningKeys_def call_getSigningKey_def call_rsaParser_def

lemmas claim_names =
  issuerClaimName_def audiencesClaimName_def subjectClaimName_def keyIDJwtHeaderName_def

lemma ValidationErrorSignatureInvalid_value: "ValidationErrorSignatureInvalid = 4"
  by (simp add: ValidationErrorSignatureInvalid_def)

section \<open>Issuer matching\<close>

lemma issuer_loop_find:
  "issuer_loop ti (if ti = ''accounts.google.com'' then ''https://'' @ ti else ti) ps =
   find (issuer_matches ti) ps"
  by (induction ps) (auto simp: issuer_matches_def)

lemma validateIssuer_code:
  "map_sum Code id (validateIssuer jt ps) =
     (case lookup (Claims jt) issuerClaimName of
        JStr ti \<Rightarrow>
          if ti = [] then Inl ValidationErrorInvalidIssuer
          else (case find (issuer_matches ti) ps of
                  Some p \<Rightarrow> Inr p
                | None \<Rightarrow> Inl ValidationErrorIssuerNotFound)
      | _ \<Rightarrow> Inl ValidationErrorInvalidIssuerType)"
  using issuer_loop_find
  by (simp add: validateIssuer_def getIssuer_def Let_def split: jval.splits option.splits)

text \<open>
  Claim C3. For a non-empty string issuer claim \<open>ti\<close>, issuer validation returns the first
  provider in registry order whose \<open>Issuer\<close> equals the claim verbatim or, when the claim is
  exactly \<^verbatim>\<open>accounts.google.com\<close>, equals \<^verbatim>\<open>https://accounts.google.com\<close>; it fails with
  \<open>IssuerNotFound\<close> when there is none. For every other claim the rule is plain equality,
  so the claim \<^verbatim>\<open>https://accounts.google.com\<close> does not match a provider registered as
  \<^verbatim>\<open>accounts.google.com\<close>.
\<close>

theorem validateIssuer_first_match:
  assumes "Claims jt issuerClaimName = Some (JStr ti)" and "ti \<noteq> []"
  shows "map_sum Code id (validateIssuer jt ps) =
           (case find (issuer_matches ti) ps of
              Some p \<Rightarrow> Inr p
            | None \<Rightarrow> Inl ValidationErrorIssuerNotFound)
         \<and> (ti \<noteq> ''accounts.google.com'' \<longrightarrow> issuer_matches ti = (\<lambda>p. ti = Issuer p))
         \<and> (ti = ''https://accounts.google.com'' \<longrightarrow>
              map_sum Code id (validateIssuer jt [\<lparr>Issuer = ''accounts.google.com'', ClientIDs = cs\<rparr>])
                = Inl ValidationErrorIssuerNotFound)"
proof -
  have l: "lookup (Claims jt) issuerClaimName = JStr ti"
    using assms(1) by (rule lookup_Some)
  have a: "map_sum Code id (validateIssuer jt qs) =
           (case find (issuer_matches ti) qs of
              Some p \<Rightarrow> Inr p
            | None \<Rightarrow> Inl ValidationErrorIssuerNotFound)" for qs
    using assms(2) by (simp add: validateIssuer_code l)
  have b: "ti \<noteq> ''accounts.google.com'' \<longrightarrow> issuer_matches ti = (\<lambda>p. ti = Issuer p)"
    by (auto simp: issuer_matches_def fun_eq_iff)
  have c: "ti = ''https://accounts.google.com'' \<longrightarrow>
              map_sum Code id (validateIssuer jt [\<lparr>Issuer = ''accounts.google.com'', ClientIDs = cs\<rparr>])
                = Inl ValidationErrorIssuerNotFound"
    by (simp add: a issuer_matches_def)
  from a b c show ?thesis by blast
qed

text \<open>The Google scenario of the specification, and the reverse direction, which does not match.\<close>

theorem validateIssuer_first_match_witness:
  "Claims google_token issuerClaimName = Some (JStr ''accounts.google.com'')
   \<and> map_sum Code id (validateIssuer google_token [example_provider, google_provider]) =
       Inr google_provider
   \<and> Claims google_https_token issuerClaimName = Some (JStr ''https://accounts.google.com'')
   \<and> issuer_matches ''https://accounts.google.com'' = (\<lambda>p. ''https://accounts.google.com'' = Issuer p)
   \<and> map_sum Code id
         (validateIssuer google_https_token [\<lparr>Issuer = ''accounts.google.com'', ClientIDs = [''client-1'']\<rparr>]) =
       Inl ValidationErrorIssuerNotFound"
proof -
  have g: "Claims google_token issuerClaimName = Some (JStr ''accounts.google.com'')"
    by (simp add: google_token_def issuerClaimName_def)
  have h: "Claims google_https_token issuerClaimName = Some (JStr ''https://accounts.google.com'')"
    by (simp add: google_https_token_def issuerClaimName_def)
  have f: "find (issuer_matches ''accounts.google.com'') [example_provider, google_provider] =
             Some google_provider"
    by (simp add: issuer_matches_def example_provider_def google_provider_def)
  from validateIssuer_first_match [OF g, of "[example_provider, google_provider]"] f
  have 1: "map_sum Code id (validateIssuer google_token [example_provider, google_provider]) =
       Inr google_provider"
    by simp
  from validateIssuer_first_match [OF h, of _ "[''client-1'']"]
  have 2: "issuer_matches ''https://accounts.google.com'' = (\<lambda>p. ''https://accounts.google.com'' = Issuer p)
   \<and> map_sum Code id
         (validateIssuer google_https_token [\<lparr>Issuer = ''accounts.google.com'', ClientIDs = [''client-1'']\<rparr>]) =
       Inl ValidationErrorIssuerNotFound"
    by simp
  from g h 1 2 show ?thesis by blast
qed

text \<open>
  Claim C4 says that a missing issuer claim yields \<open>InvalidIssuer\<close>. The code does not: a
  missing claim reads as the nil interface, the string assertion fails first, and the result
  is \<open>InvalidIssuerType\<close>, although the message of \<open>InvalidIssuer\<close> speaks of a claim that
  was not found.
\<close>

theorem validateIssuer_missing_claim:
  "validateIssuer \<lparr>Header = h, Claims = Map.empty\<rparr> ps =
     Inl \<lparr>Code = ValidationErrorInvalidIssuerType,
          Message = Sprintf ''Invalid Issuer type: %T'' [OpValue JNull],
          HTTPStatus = 401\<rparr>"
  by (simp add: validateIssuer_def getIssuer_def lookup_def StatusUnauthorized_def)

section \<open>Audience matching\<close>

lemma audience_loop_Inr:
  "audience_loop all c es = Some (Inr ta) \<Longrightarrow> ta = c \<and> c \<noteq> [] \<and> JStr c \<in> set es"
  by (induction es) (auto split: option.splits if_splits)

lemma audience_loop_None:
  "audience_loop all c es = None \<Longrightarrow> JStr c \<notin> set es"
  by (induction es) (auto split: option.splits if_splits)

lemma audience_loop_well_typed:
  "\<forall>a\<in>set es. \<exists>s. a = JStr s \<and> s \<noteq> [] \<Longrightarrow>
   audience_loop all c es = (if JStr c \<in> set es then Some (Inr c) else None)"
  by (induction es) (auto split: if_splits)

lemma client_loop_Inr:
  "client_loop p auds cids = Inr ta \<Longrightarrow>
   ta \<noteq> [] \<and> first_matching_client cids auds = Some ta"
proof (induction cids)
  case Nil
  then show ?case by simp
next
  case (Cons c cids)
  show ?case
  proof (cases "audience_loop auds c auds")
    case None
    with Cons audience_loop_None [OF None] show ?thesis
      by (simp add: first_matching_client_def)
  next
    case (Some r)
    with Cons.prems have "r = Inr ta" by simp
    with Some audience_loop_Inr [of auds c auds ta] show ?thesis
      by (simp add: first_matching_client_def)
  qed
qed

lemma client_loop_well_typed:
  "\<forall>a\<in>set auds. \<exists>s. a = JStr s \<and> s \<noteq> [] \<Longrightarrow>
   map_sum Code id (client_loop p auds cids) =
     (case first_matching_client cids auds of
        Some c \<Rightarrow> Inr c
      | None \<Rightarrow> Inl ValidationErrorAudienceNotFound)"
  by (induction cids) (simp_all add: audience_loop_well_typed first_matching_client_def)

text \<open>
  Claim C5. With \<open>auds\<close> the normalized audience sequence of the token: a successful match
  returns a non-empty string that is a configured client identifier and an audience entry,
  namely the first configured client identifier that occurs among the entries; when all
  entries are non-empty strings the result is that client identifier, or \<open>AudienceNotFound\<close>
  when there is none; and with client identifiers \<open>[A, B]\<close> and audiences \<open>[B, A]\<close>, both
  non-empty, the match is \<open>A\<close>.
\<close>

theorem validateAudiences_first_client:
  assumes "getAudiences jt = Inr auds"
  shows "(validateAudiences jt p = Inr ta \<longrightarrow>
            ta \<noteq> [] \<and> ta \<in> set (ClientIDs p) \<and> JStr ta \<in> set auds
            \<and> first_matching_client (ClientIDs p) auds = Some ta)
         \<and> ((\<forall>a\<in>set auds. \<exists>s. a = JStr s \<and> s \<noteq> []) \<longrightarrow>
              map_sum Code id (validateAudiences jt p) =
                (case first_matching_client (ClientIDs p) auds of
                   Some c \<Rightarrow> Inr c
                 | None \<Rightarrow> Inl ValidationErrorAudienceNotFound))
         \<and> (A \<noteq> [] \<and> B \<noteq> [] \<and> ClientIDs p = [A, B] \<and> auds = [JStr B, JStr A] \<longrightarrow>
              validateAudiences jt p = Inr A)"
proof -
  have v: "validateAudiences jt p = client_loop p auds (ClientIDs p)"
    using assms by (simp add: validateAudiences_def)
  have a: "validateAudiences jt p = Inr ta \<longrightarrow>
            ta \<noteq> [] \<and> ta \<in> set (ClientIDs p) \<and> JStr ta \<in> set auds
            \<and> first_matching_client (ClientIDs p) auds = Some ta"
  proof
    assume "validateAudiences jt p = Inr ta"
    then have r: "ta \<noteq> [] \<and> first_matching_client (ClientIDs p) auds = Some ta"
      using client_loop_Inr v by metis
    then have "ta \<in> set (ClientIDs p) \<and> JStr ta \<in> set auds"
      using find_member [of "\<lambda>c. JStr c \<in> set auds" "ClientIDs p" ta]
      by (simp add: first_matching_client_def)
    with r show "ta \<noteq> [] \<and> ta \<in> set (ClientIDs p) \<and> JStr ta \<in> set auds
            \<and> first_matching_client (ClientIDs p) auds = Some ta" by simp
  qed
  have b: "(\<forall>a\<in>set auds. \<exists>s. a = JStr s \<and> s \<noteq> []) \<longrightarrow>
              map_sum Code id (validateAudiences jt p) =
                (case first_matching_client (ClientIDs p) auds of
                   Some c \<Rightarrow> Inr c
                 | None \<Rightarrow> Inl ValidationErrorAudienceNotFound)"
    by (simp add: v client_loop_well_typed)
  have c: "A \<noteq> [] \<and> B \<noteq> [] \<and> ClientIDs p = [A, B] \<and> auds = [JStr B, JStr A] \<longrightarrow>
              validateAudiences jt p = Inr A"
    by (auto simp: v)
  from a b c show ?thesis by blast
qed

text \<open>Client identifiers \<open>[A, B]\<close> against audiences \<open>[B, A]\<close>.\<close>

theorem validateAudiences_first_client_witness:
  "getAudiences ba_token = Inr [JStr ''B'', JStr ''A'']
   \<and> validateAudiences ba_token \<lparr>Issuer = ''https://idp.example'', ClientIDs = [''A'', ''B'']\<rparr> = Inr ''A''
   \<and> first_matching_client [''A'', ''B''] [JStr ''B'', JStr ''A''] = Some ''A''
   \<and> map_sum Code id
         (validateAudiences ba_token \<lparr>Issuer = ''https://idp.example'', ClientIDs = [''A'', ''B'']\<rparr>) =
       Inr ''A''"
proof -
  let ?p = "\<lparr>Issuer = ''https://idp.example'', ClientIDs = [''A'', ''B'']\<rparr>"
  have g: "getAudiences ba_token = Inr [JStr ''B'', JStr ''A'']"
    by (simp add: getAudiences_def ba_token_def lookup_def audiencesClaimName_def)
  have w: "\<forall>a\<in>set [JStr ''B'', JStr ''A'']. \<exists>s. a = JStr s \<and> s \<noteq> []"
    by simp
  note t = validateAudiences_first_client [OF g, of ?p "''A''" "''A''" "''B''"]
  from t have 1: "validateAudiences ba_token ?p = Inr ''A''" by simp
  from t 1 have 2: "first_matching_client [''A'', ''B''] [JStr ''B'', JStr ''A''] = Some ''A''"
    by simp
  from t w 2 have 3: "map_sum Code id (validateAudiences ba_token ?p) = Inr ''A''"
    by simp
  from g 1 2 3 show ?thesis by blast
qed

lemma audience_loop_code:
  "map_option (map_sum Code id) (audience_loop all c es) =
     (case find (audience_stop c) es of
        Some e \<Rightarrow>
          Some (case as_string e of
                  None \<Rightarrow> Inl ValidationErrorInvalidAudienceType
                | Some ta \<Rightarrow> if ta = [] then Inl ValidationErrorInvalidAudience else Inr ta)
      | None \<Rightarrow> None)"
  by (induction es) (auto simp: audience_stop_def split: option.splits)

lemma find_stop_None:
  "find (audience_stop c) es = None \<Longrightarrow> \<forall>a\<in>set es. \<exists>s. a = JStr s \<and> s \<noteq> []"
proof (induction es)
  case Nil
  then show ?case by simp
next
  case (Cons e es)
  then have n: "\<not> audience_stop c e" and r: "find (audience_stop c) es = None"
    by (auto split: if_splits)
  from n have "\<exists>s. e = JStr s \<and> s \<noteq> []"
    by (cases e) (auto simp: audience_stop_def)
  with Cons.IH [OF r] show ?case by simp
qed

lemma client_loop_code:
  "map_sum Code id (client_loop p auds cids) = audience_outcome cids auds"
proof (cases cids)
  case Nil
  then show ?thesis by (simp add: audience_outcome_def)
next
  case (Cons c cs)
  show ?thesis
  proof (cases "find (audience_stop c) auds")
    case None
    then have n: "audience_loop auds c auds = None"
      using audience_loop_code [of auds c auds] by simp
    from find_stop_None [OF None] show ?thesis
      by (simp add: Cons n None audience_outcome_def client_loop_well_typed)
  next
    case (Some e)
    then obtain r where r: "audience_loop auds c auds = Some r"
      using audience_loop_code [of auds c auds] by (cases "audience_loop auds c auds") auto
    with Some audience_loop_code [of auds c auds] show ?thesis
      by (simp add: Cons audience_outcome_def)
  qed
qed

text \<open>
  Claim C6, as amended. A scalar string audience claim is treated as the one-element sequence
  of that string; a claim that is neither a string nor a list gives \<open>InvalidAudienceType\<close>.
  Entries are checked while matching, in claim order, against the first configured client
  identifier: the first entry that is not a string (\<open>InvalidAudienceType\<close>), is empty
  (\<open>InvalidAudience\<close>) or equals that client identifier (success) decides, and later entries
  are not inspected. When no entry decides, the other client identifiers are matched in order
  and \<open>AudienceNotFound\<close> is returned when none equals an entry, as it is when the provider
  has no client identifier.
\<close>

theorem validateAudiences_outcome:
  "map_sum Code id (validateAudiences jt p) =
     (case lookup (Claims jt) audiencesClaimName of
        JStr s \<Rightarrow> audience_outcome (ClientIDs p) [JStr s]
      | JArr es \<Rightarrow> audience_outcome (ClientIDs p) es
      | _ \<Rightarrow> Inl ValidationErrorInvalidAudienceType)"
  by (simp add: validateAudiences_def getAudiences_def client_loop_code split: jval.splits)

text \<open>
  The claim as stated fails: a list with a non-string element is accepted when a matching
  entry precedes that element.
\<close>

theorem validateAudiences_mixed_list_accepted:
  "JNum 42 \<in> set [JStr ''A'', JNum 42] \<and> as_string (JNum 42) = None \<and>
   validateAudiences
     \<lparr>Header = Map.empty, Claims = [''aud'' \<mapsto> JArr [JStr ''A'', JNum 42]]\<rparr>
     \<lparr>Issuer = ''https://idp.example'', ClientIDs = [''A'']\<rparr> = Inr ''A''"
  by (simp add: validateAudiences_def getAudiences_def lookup_def audiencesClaimName_def)

section \<open>Subject validation\<close>

lemma validateSubject_code:
  "map_sum Code id (validateSubject jt) =
     (case lookup (Claims jt) subjectClaimName of
        JStr ts \<Rightarrow> if ts = [] then Inl ValidationErrorInvalidSubject else Inr ts
      | _ \<Rightarrow> Inl ValidationErrorInvalidSubjectType)"
  by (simp add: validateSubject_def getSubject_def split: jval.splits)

text \<open>
  Claim C7 says that a missing subject claim yields \<open>InvalidSubject\<close>. The code does not: a
  missing claim reads as the nil interface, the string assertion fails first, and the result
  is \<open>InvalidSubjectType\<close>, although the message of \<open>InvalidSubject\<close> speaks of a claim that
  was not found.
\<close>

theorem validateSubject_missing_claim:
  "validateSubject \<lparr>Header = h, Claims = Map.empty\<rparr> =
     Inl \<lparr>Code = ValidationErrorInvalidSubjectType,
          Message = Sprintf ''Invalid subject type: %T'' [OpValue JNull],
          HTTPStatus = 401\<rparr>"
  by (simp add: validateSubject_def getSubject_def lookup_def StatusUnauthorized_def)

section \<open>The status of claim-validation errors\<close>

lemma audience_loop_status:
  "audience_loop all c es = Some (Inl e) \<Longrightarrow> HTTPStatus e = StatusUnauthorized"
  by (induction es) (auto split: option.splits if_splits)

lemma client_loop_status:
  "client_loop p auds cids = Inl e \<Longrightarrow> HTTPStatus e = StatusUnauthorized"
  by (induction cids) (auto split: option.splits dest: audience_loop_status)

text \<open>
  Claim C8. Every error that issuer, audience or subject validation returns carries the HTTP
  status 401.
\<close>

theorem claim_validation_status_401:
  "(validateIssuer jt ps = Inl e \<longrightarrow> HTTPStatus e = 401)
   \<and> (validateAudiences jt p = Inl e \<longrightarrow> HTTPStatus e = 401)
   \<and> (getAudiences jt = Inl e \<longrightarrow> HTTPStatus e = 401)
   \<and> (validateSubject jt = Inl e \<longrightarrow> HTTPStatus e = 401)"
proof -
  have i: "validateIssuer jt ps = Inl e \<longrightarrow> HTTPStatus e = StatusUnauthorized"
    by (auto simp: validateIssuer_def Let_def split: option.splits if_splits)
  have g: "getAudiences jt = Inl e \<longrightarrow> HTTPStatus e = StatusUnauthorized"
    by (auto simp: getAudiences_def Let_def split: jval.splits)
  have a: "validateAudiences jt p = Inl e \<longrightarrow> HTTPStatus e = StatusUnauthorized"
    using g by (auto simp: validateAudiences_def split: sum.splits dest: client_loop_status)
  have s: "validateSubject jt = Inl e \<longrightarrow> HTTPStatus e = StatusUnauthorized"
    by (auto simp: validateSubject_def Let_def split: option.splits if_splits)
  from i g a s show ?thesis by (simp add: StatusUnauthorized_def)
qed

text \<open>Tokens that fail each of the validations.\<close>

theorem claim_validation_status_401_witness:
  "isl (validateIssuer empty_token [])
   \<and> HTTPStatus (projl (validateIssuer empty_token [])) = 401
   \<and> isl (validateAudiences issuer_only_token example_provider)
   \<and> HTTPStatus (projl (validateAudiences issuer_only_token example_provider)) = 401
   \<and> isl (getAudiences empty_token)
   \<and> HTTPStatus (projl (getAudiences empty_token)) = 401
   \<and> isl (validateSubject no_subject_token)
   \<and> HTTPStatus (projl (validateSubject no_subject_token)) = 401"
proof -
  have i: "isl (validateIssuer empty_token [])"
    by (simp add: validateIssuer_def getIssuer_def lookup_def empty_token_def)
  have a: "isl (validateAudiences issuer_only_token example_provider)"
    by (simp add: validateAudiences_def getAudiences_def lookup_def issuer_only_token_def
          claim_names)
  have g: "isl (getAudiences empty_token)"
    by (simp add: getAudiences_def lookup_def empty_token_def)
  have s: "isl (validateSubject no_subject_token)"
    by (simp add: validateSubject_def getSubject_def lookup_def no_subject_token_def claim_names)
  from i claim_validation_status_401
    [where jt = empty_token and ps = "[]" and e = "projl (validateIssuer empty_token [])"]
  have 1: "HTTPStatus (projl (validateIssuer empty_token [])) = 401"
    by simp
  from a claim_validation_status_401
    [where jt = issuer_only_token and p = example_provider
       and e = "projl (validateAudiences issuer_only_token example_provider)"]
  have 2: "HTTPStatus (projl (validateAudiences issuer_only_token example_provider)) = 401"
    by simp
  from g claim_validation_status_401
    [where jt = empty_token and e = "projl (getAudiences empty_token)"]
  have 3: "HTTPStatus (projl (getAudiences empty_token)) = 401"
    by simp
  from s claim_validation_status_401
    [where jt = no_subject_token and e = "projl (validateSubject no_subject_token)"]
  have 4: "HTTPStatus (projl (validateSubject no_subject_token)) = 401"
    by simp
  from i a g s 1 2 3 4 show ?thesis by blast
qed

section \<open>The example validator, evaluated\<close>

lemma example_token_claims:
  "lookup (Claims example_token) issuerClaimName = JStr ''https://idp.example''"
  "lookup (Claims example_token) audiencesClaimName = JStr ''client-1''"
  "lookup (Claims example_token) subjectClaimName = JStr ''user-42''"
  "getTokenKid example_token = ''k1''"
  by (simp_all add: example_token_def lookup_def getTokenKid_def claim_names)

lemma example_claims_valid:
  "validateIssuer example_token [example_provider] = Inr example_provider"
  "validateAudiences example_token example_provider = Inr ''client-1''"
  "validateSubject example_token = Inr ''user-42''"
  "providers_validate [example_provider] = None"
  by (simp_all add: validateIssuer_def getIssuer_def validateAudiences_def getAudiences_def
        validateSubject_def getSubject_def providers_validate_def example_token_claims)
     (simp_all add: example_provider_def)

lemma example_accepted: "accepted_provider example_token [example_provider] = Some example_provider"
  by (simp add: accepted_provider_def example_claims_valid)

lemma example_first_pass:
  "getSigningKey example_validator () example_token \<lparr>world = w, trace = evs\<rparr> =
     (Return (Inr [if w = 0 then 1 else 2]),
      \<lparr>world = w,
       trace = evs @ [EvProvGetter, EvGetSigningKey ''https://idp.example'' ''k1'',
                      EvRsaParser [if w = 0 then 1 else 2]]\<rparr>)"
  by (simp add: getSigningKey_def call_defs example_claims_valid example_token_claims
        example_validator_def)
     (simp add: example_provider_def)

lemma example_renewal:
  "renewAndGetSigningKey example_validator () example_token \<lparr>world = w, trace = evs\<rparr> =
     (Return (Inr [2]),
      \<lparr>world = Suc w,
       trace = evs @ [EvFlushCachedSigningKeys ''https://idp.example'',
                      EvGetSigningKey ''https://idp.example'' ''k1'', EvRsaParser [2]]\<rparr>)"
  by (simp add: renewAndGetSigningKey_def call_defs example_token_claims example_validator_def)

lemma example_parser_fields:
  "jwtParser example_validator = example_parser"
  "decode_token example_parser t w =
     (if t = ''good'' then (Inr example_token, w) else (Inl (JwtValidationError 1 None), w))"
  "verify_token example_parser t tok res w =
     (case res of
        Inl err \<Rightarrow> (Inl (JwtValidationError 2 (Some err)), w)
      | Inr key \<Rightarrow> if key = [2] then (Inr tok, w) else (Inl (JwtValidationError 4 None), w))"
  by (simp_all add: example_validator_def example_parser_def)

lemma example_first_parse:
  "call_jwtParser example_validator ''good'' (getSigningKey example_validator ())
     \<lparr>world = w, trace = []\<rparr> =
     (Return (if w = 0 then Inl (JwtValidationError 4 None) else Inr example_token),
      \<lparr>world = w,
       trace = [EvParse ''good'', EvProvGetter, EvGetSigningKey ''https://idp.example'' ''k1'',
                EvRsaParser [if w = 0 then 1 else 2]]\<rparr>)"
  by (simp add: call_jwtParser_def example_first_pass example_parser_fields)

lemma example_second_parse:
  "call_jwtParser example_validator ''good'' (renewAndGetSigningKey example_validator ())
     \<lparr>world = w, trace = evs\<rparr> =
     (Return (Inr example_token),
      \<lparr>world = Suc w,
       trace = evs @ [EvParse ''good'', EvFlushCachedSigningKeys ''https://idp.example'',
                EvGetSigningKey ''https://idp.example'' ''k1'', EvRsaParser [2]]\<rparr>)"
  by (simp add: call_jwtParser_def example_renewal example_parser_fields)

lemma example_validate_stale:
  "validate id example_validator () ''good'' \<lparr>world = 0, trace = []\<rparr> =
     (Return (Inr example_token),
      \<lparr>world = 1,
       trace = [EvParse ''good'', EvProvGetter, EvGetSigningKey ''https://idp.example'' ''k1'',
                EvRsaParser [1],
                EvParse ''good'', EvFlushCachedSigningKeys ''https://idp.example'',
                EvGetSigningKey ''https://idp.example'' ''k1'', EvRsaParser [2]]\<rparr>)"
  by (simp add: validate_def example_first_parse example_second_parse
        ValidationErrorSignatureInvalid_value)

lemma example_validate_fresh:
  "validate id example_validator () ''good'' \<lparr>world = 1, trace = []\<rparr> =
     (Return (Inr example_token),
      \<lparr>world = 1,
       trace = [EvParse ''good'', EvProvGetter, EvGetSigningKey ''https://idp.example'' ''k1'',
                EvRsaParser [2]]\<rparr>)"
  by (simp add: validate_def example_first_parse)

lemma example_validator_fields:
  "provGetter example_validator w = (Inr [example_provider], w)"
  "keyGetter_getSigningKey example_validator r iss kid w = (Inr [if w = 0 then 1 else 2], w)"
  "keyGetter_flushCachedSigningKeys example_validator iss w = (None, Suc w)"
  "rsaParser example_validator key w = (Inr key, w)"
  by (simp_all add: example_validator_def)

lemma empty_token_issuer:
  "validateIssuer empty_token [example_provider] =
     Inl \<lparr>Code = ValidationErrorInvalidIssuerType,
          Message = Sprintf ''Invalid Issuer type: %T'' [OpValue JNull],
          HTTPStatus = StatusUnauthorized\<rparr>"
  by (simp add: validateIssuer_def getIssuer_def lookup_def empty_token_def)

lemma issuer_only_token_claims:
  "validateIssuer issuer_only_token [example_provider] = Inr example_provider"
  "validateAudiences issuer_only_token example_provider =
     Inl \<lparr>Code = ValidationErrorInvalidAudienceType,
          Message = Sprintf ''Invalid Audiences type: %T'' [OpValue JNull],
          HTTPStatus = StatusUnauthorized\<rparr>"
  by (simp_all add: validateIssuer_def getIssuer_def validateAudiences_def getAudiences_def
        lookup_def issuer_only_token_def claim_names example_provider_def)

lemma no_subject_token_claims:
  "validateIssuer no_subject_token [example_provider] = Inr example_provider"
  "validateAudiences no_subject_token example_provider = Inr ''client-1''"
  "validateSubject no_subject_token =
     Inl \<lparr>Code = ValidationErrorInvalidSubjectType,
          Message = Sprintf ''Invalid subject type: %T'' [OpValue JNull],
          HTTPStatus = StatusUnauthorized\<rparr>"
  "getTokenKid no_subject_token = []"
  by (simp_all add: validateIssuer_def getIssuer_def validateAudiences_def getAudiences_def
        validateSubject_def getSubject_def getTokenKid_def
        lookup_def no_subject_token_def claim_names example_provider_def)

lemma stale_validator_fields:
  "jwtParser stale_validator = example_parser"
  "provGetter stale_validator w = (Inr [example_provider], w)"
  "keyGetter_getSigningKey stale_validator r iss kid w = (Inr [1], w)"
  "keyGetter_flushCachedSigningKeys stale_validator iss w = (None, Suc w)"
  "rsaParser stale_validator key w = (Inr key, w)"
  by (simp_all add: stale_validator_def example_validator_def)

lemma stale_first_parse:
  "call_jwtParser stale_validator ''good'' (getSigningKey stale_validator ())
     \<lparr>world = 0, trace = []\<rparr> =
     (Return (Inl (JwtValidationError 4 None)),
      \<lparr>world = 0,
       trace = [EvParse ''good'', EvProvGetter, EvGetSigningKey ''https://idp.example'' ''k1'',
                EvRsaParser [1]]\<rparr>)"
  by (simp add: call_jwtParser_def getSigningKey_def call_defs stale_validator_fields
        example_parser_fields example_claims_valid example_token_claims)
     (simp add: example_provider_def)

lemma stale_second_parse:
  "call_jwtParser stale_validator ''good'' (renewAndGetSigningKey stale_validator ())
     \<lparr>world = 0, trace = evs\<rparr> =
     (Return (Inl (JwtValidationError 4 None)),
      \<lparr>world = 1,
       trace = evs @ [EvParse ''good'', EvFlushCachedSigningKeys ''https://idp.example'',
                EvGetSigningKey ''https://idp.example'' ''k1'', EvRsaParser [1]]\<rparr>)"
  by (simp add: call_jwtParser_def renewAndGetSigningKey_def call_defs stale_validator_fields
        example_parser_fields example_token_claims)

lemma foreign_validator_fields:
  "jwtParser foreign_validator = example_parser"
  "provGetter foreign_validator w =
     (Inr [\<lparr>Issuer = ''https://other.example'', ClientIDs = [''client-1'']\<rparr>], w)"
  by (simp_all add: foreign_validator_def example_validator_def)

lemma foreign_first_parse:
  "call_jwtParser foreign_validator ''good'' (getSigningKey foreign_validator ())
     \<lparr>world = 0, trace = []\<rparr> =
     (Return (Inl (JwtValidationError 2 (Some (OpenIDError
        \<lparr>Code = ValidationErrorIssuerNotFound,
         Message = Sprintf ''No provider was registered with issuer: %v''
                     [OpString ''https://idp.example''],
         HTTPStatus = StatusUnauthorized\<rparr>)))),
      \<lparr>world = 0, trace = [EvParse ''good'', EvProvGetter]\<rparr>)"
  by (simp add: call_jwtParser_def getSigningKey_def call_defs foreign_validator_fields
        example_parser_fields providers_validate_def validateIssuer_def getIssuer_def
        example_token_claims)

section \<open>The key callbacks\<close>

lemma key_fetch_no_parse: "filter is_parse (key_fetch_events tv r iss kid w) = []"
  by (cases "fst (keyGetter_getSigningKey tv r iss kid w)") (simp_all add: key_fetch_events_def)

lemma key_fetch_one_call:
  "length (filter is_getSigningKey (key_fetch_events tv r iss kid w)) = 1"
  by (cases "fst (keyGetter_getSigningKey tv r iss kid w)") (simp_all add: key_fetch_events_def)

lemma key_fetch_kid:
  "EvGetSigningKey i k \<in> set (key_fetch_events tv r iss kid w) \<Longrightarrow> k = kid"
  by (cases "fst (keyGetter_getSigningKey tv r iss kid w)") (simp_all add: key_fetch_events_def)

lemma getSigningKey_events:
  "trace (snd (getSigningKey tv r jt s)) =
   trace s @ EvProvGetter #
     (case fst (provGetter tv (world s)) of
        Inl _ \<Rightarrow> []
      | Inr provs \<Rightarrow>
          (case accepted_provider jt provs of
             None \<Rightarrow> []
           | Some p \<Rightarrow>
               key_fetch_events tv r (Issuer p) (getTokenKid jt) (snd (provGetter tv (world s)))))"
  by (auto simp: getSigningKey_def accepted_provider_def key_fetch_events_def call_defs Let_def
           split: prod.splits sum.splits option.splits)

lemma renew_events:
  "lookup (Claims jt) issuerClaimName = JStr iss \<Longrightarrow>
   trace (snd (renewAndGetSigningKey tv r jt s)) =
   trace s @ EvFlushCachedSigningKeys iss #
     (case fst (keyGetter_flushCachedSigningKeys tv iss (world s)) of
        Some _ \<Rightarrow> []
      | None \<Rightarrow>
          key_fetch_events tv r iss (getTokenKid jt)
            (snd (keyGetter_flushCachedSigningKeys tv iss (world s))))"
  by (auto simp: renewAndGetSigningKey_def key_fetch_events_def call_defs Let_def
           split: prod.splits sum.splits option.splits)

lemma renew_panic:
  "fst (renewAndGetSigningKey tv r jt s) = Panic \<longleftrightarrow>
   as_string (lookup (Claims jt) issuerClaimName) = None"
  by (auto simp: renewAndGetSigningKey_def call_defs Let_def
           split: prod.splits sum.splits option.splits)

lemma renew_panic_state:
  "as_string (lookup (Claims jt) issuerClaimName) = None \<Longrightarrow>
   renewAndGetSigningKey tv r jt s = (Panic, s)"
  by (simp add: renewAndGetSigningKey_def)

lemma getSigningKey_no_panic: "fst (getSigningKey tv r jt s) \<noteq> Panic"
  by (auto simp: getSigningKey_def call_defs Let_def
           split: prod.splits sum.splits option.splits)

lemma getSigningKey_key_issuer:
  "fst (getSigningKey tv r jt s) = Return (Inr key) \<Longrightarrow>
   \<exists>iss. lookup (Claims jt) issuerClaimName = JStr iss \<and> iss \<noteq> []"
  by (auto simp: getSigningKey_def validateIssuer_def getIssuer_def call_defs Let_def
           split: prod.splits sum.splits option.splits if_splits)

lemma getSigningKey_kid:
  "EvGetSigningKey i k \<in> set (new_events s (snd (getSigningKey tv r jt s))) \<Longrightarrow>
   k = getTokenKid jt"
proof (cases "fst (provGetter tv (world s))")
  case (Inl err)
  then show "EvGetSigningKey i k \<in> set (new_events s (snd (getSigningKey tv r jt s))) \<Longrightarrow>
   k = getTokenKid jt"
    by (simp add: getSigningKey_events new_events_def)
next
  case (Inr provs)
  then show "EvGetSigningKey i k \<in> set (new_events s (snd (getSigningKey tv r jt s))) \<Longrightarrow>
   k = getTokenKid jt"
    by (cases "accepted_provider jt provs")
       (auto simp: getSigningKey_events new_events_def dest: key_fetch_kid)
qed

lemma renew_kid:
  "EvGetSigningKey i k \<in> set (new_events s (snd (renewAndGetSigningKey tv r jt s))) \<Longrightarrow>
   k = getTokenKid jt"
proof (cases "as_string (lookup (Claims jt) issuerClaimName)")
  case None
  then show "EvGetSigningKey i k \<in> set (new_events s (snd (renewAndGetSigningKey tv r jt s))) \<Longrightarrow>
   k = getTokenKid jt"
    by (simp add: renew_panic_state new_events_def)
next
  case (Some iss)
  then have l: "lookup (Claims jt) issuerClaimName = JStr iss" by simp
  show "EvGetSigningKey i k \<in> set (new_events s (snd (renewAndGetSigningKey tv r jt s))) \<Longrightarrow>
   k = getTokenKid jt"
    by (cases "fst (keyGetter_flushCachedSigningKeys tv iss (world s))")
       (auto simp: renew_events [OF l] new_events_def dest: key_fetch_kid)
qed

lemma renew_ignores_other_claims:
  assumes "Claims jt issuerClaimName = Claims jt' issuerClaimName"
    and "Header jt keyIDJwtHeaderName = Header jt' keyIDJwtHeaderName"
  shows "renewAndGetSigningKey tv r jt s = renewAndGetSigningKey tv r jt' s"
proof -
  have k: "getTokenKid jt = getTokenKid jt'"
    using assms(2) by (simp add: getTokenKid_def lookup_def)
  have l: "lookup (Claims jt) issuerClaimName = lookup (Claims jt') issuerClaimName"
    using assms(1) by (simp add: lookup_def)
  show ?thesis
    unfolding renewAndGetSigningKey_def k l ..
qed

lemma renew_ignores_providers:
  "renewAndGetSigningKey (tv\<lparr>provGetter := pg\<rparr>) r jt s = renewAndGetSigningKey tv r jt s"
proof -
  have f: "call_flushCachedSigningKeys (tv\<lparr>provGetter := pg\<rparr>) = call_flushCachedSigningKeys tv"
    by (simp add: fun_eq_iff call_flushCachedSigningKeys_def)
  have g: "call_getSigningKey (tv\<lparr>provGetter := pg\<rparr>) = call_getSigningKey tv"
    by (simp add: fun_eq_iff call_getSigningKey_def)
  have p: "call_rsaParser (tv\<lparr>provGetter := pg\<rparr>) = call_rsaParser tv"
    by (simp add: fun_eq_iff call_rsaParser_def)
  show ?thesis
    unfolding renewAndGetSigningKey_def f g p ..
qed

lemma getSigningKey_key_calls:
  "\<exists>evs. trace (snd (getSigningKey tv r jt s)) = trace s @ evs
         \<and> length (filter is_getSigningKey evs) \<le> 1"
proof (cases "fst (provGetter tv (world s))")
  case (Inl err)
  then show ?thesis
    by (simp add: getSigningKey_events)
next
  case (Inr provs)
  then show ?thesis
    by (cases "accepted_provider jt provs")
       (simp_all add: getSigningKey_events key_fetch_one_call)
qed

lemma first_parse_key_calls:
  "length (filter is_getSigningKey
     (new_events s (snd (call_jwtParser tv t (getSigningKey tv r) s)))) \<le> 1"
proof (cases "decode_token (jwtParser tv) t (world s)")
  case (Pair d w1)
  show ?thesis
  proof (cases d)
    case (Inl err)
    with Pair show ?thesis by (simp add: call_jwtParser_def new_events_def)
  next
    case (Inr tok)
    let ?s0 = "\<lparr>world = w1, trace = trace s @ [EvParse t]\<rparr>"
    obtain evs where e: "trace (snd (getSigningKey tv r tok ?s0)) = (trace s @ [EvParse t]) @ evs"
      and q: "length (filter is_getSigningKey evs) \<le> 1"
      using getSigningKey_key_calls [of tv r tok ?s0] by auto
    from Pair Inr e q show ?thesis
      by (auto simp: call_jwtParser_def new_events_def split: prod.splits outcome.splits)
  qed
qed

text \<open>
  Claim C2. The first-pass callback fetches the provider list and returns the error of the
  provider source unchanged; otherwise it returns the error of the list check; otherwise the
  error of issuer validation, whatever the other claims are; otherwise the error of audience
  validation against the matched provider; otherwise the error of subject validation. In all
  these cases the provider source is the only collaborator called. When all checks succeed
  the key resolver is called once, with the issuer of the matched provider and the key
  identifier of the token, and then the decoder. The number of calls of the key resolver is
  one when all checks succeed and zero otherwise, and a parse attempt with this callback
  makes at most one.
\<close>

theorem getSigningKey_order:
  fixes tv :: "('r, 'w, 'x, 'k) idTokenValidator"
  shows
  "(fst (provGetter tv (world s)) = Inl err \<longrightarrow>
      getSigningKey tv r jt s =
        (Return (Inl err), \<lparr>world = snd (provGetter tv (world s)), trace = trace s @ [EvProvGetter]\<rparr>))
   \<and> (fst (provGetter tv (world s)) = Inr provs \<and> providers_validate provs = Some perr \<longrightarrow>
      getSigningKey tv r jt s =
        (Return (Inl (ProvidersError perr)),
         \<lparr>world = snd (provGetter tv (world s)), trace = trace s @ [EvProvGetter]\<rparr>))
   \<and> (fst (provGetter tv (world s)) = Inr provs \<and> providers_validate provs = None
       \<and> validateIssuer jt provs = Inl verr \<longrightarrow>
      getSigningKey tv r jt s =
        (Return (Inl (OpenIDError verr)),
         \<lparr>world = snd (provGetter tv (world s)), trace = trace s @ [EvProvGetter]\<rparr>))
   \<and> (fst (provGetter tv (world s)) = Inr provs \<and> providers_validate provs = None
       \<and> validateIssuer jt provs = Inr p \<and> validateAudiences jt p = Inl verr \<longrightarrow>
      getSigningKey tv r jt s =
        (Return (Inl (OpenIDError verr)),
         \<lparr>world = snd (provGetter tv (world s)), trace = trace s @ [EvProvGetter]\<rparr>))
   \<and> (fst (provGetter tv (world s)) = Inr provs \<and> providers_validate provs = None
       \<and> validateIssuer jt provs = Inr p \<and> validateAudiences jt p = Inr aud
       \<and> validateSubject jt = Inl verr \<longrightarrow>
      getSigningKey tv r jt s =
        (Return (Inl (OpenIDError verr)),
         \<lparr>world = snd (provGetter tv (world s)), trace = trace s @ [EvProvGetter]\<rparr>))
   \<and> (fst (provGetter tv (world s)) = Inr provs \<and> providers_validate provs = None
       \<and> validateIssuer jt provs = Inr p \<and> validateAudiences jt p = Inr aud
       \<and> validateSubject jt = Inr sub \<longrightarrow>
      new_events s (snd (getSigningKey tv r jt s)) =
        EvProvGetter #
          key_fetch_events tv r (Issuer p) (getTokenKid jt) (snd (provGetter tv (world s))))
   \<and> length (filter is_getSigningKey (new_events s (snd (getSigningKey tv r jt s)))) =
       (case fst (provGetter tv (world s)) of
          Inl _ \<Rightarrow> 0
        | Inr provs \<Rightarrow> (case accepted_provider jt provs of None \<Rightarrow> 0 | Some _ \<Rightarrow> 1))
   \<and> length (filter is_getSigningKey
         (new_events s (snd (call_jwtParser tv t (getSigningKey tv r) s)))) \<le> 1"
proof -
  have st: "snd (call_provGetter tv s) =
              \<lparr>world = snd (provGetter tv (world s)), trace = trace s @ [EvProvGetter]\<rparr>"
    and rs: "fst (call_provGetter tv s) = fst (provGetter tv (world s))"
    by (simp_all add: call_provGetter_def split: prod.splits)
  have c1: "fst (provGetter tv (world s)) = Inl err \<longrightarrow>
      getSigningKey tv r jt s =
        (Return (Inl err), \<lparr>world = snd (provGetter tv (world s)), trace = trace s @ [EvProvGetter]\<rparr>)"
    using st rs by (cases "call_provGetter tv s") (auto simp: getSigningKey_def)
  have c2: "fst (provGetter tv (world s)) = Inr provs \<and> providers_validate provs = Some perr \<longrightarrow>
      getSigningKey tv r jt s =
        (Return (Inl (ProvidersError perr)),
         \<lparr>world = snd (provGetter tv (world s)), trace = trace s @ [EvProvGetter]\<rparr>)"
    using st rs by (cases "call_provGetter tv s") (auto simp: getSigningKey_def)
  have c3: "fst (provGetter tv (world s)) = Inr provs \<and> providers_validate provs = None
       \<and> validateIssuer jt provs = Inl verr \<longrightarrow>
      getSigningKey tv r jt s =
        (Return (Inl (OpenIDError verr)),
         \<lparr>world = snd (provGetter tv (world s)), trace = trace s @ [EvProvGetter]\<rparr>)"
    using st rs by (cases "call_provGetter tv s") (auto simp: getSigningKey_def)
  have c4: "fst (provGetter tv (world s)) = Inr provs \<and> providers_validate provs = None
       \<and> validateIssuer jt provs = Inr p \<and> validateAudiences jt p = Inl verr \<longrightarrow>
      getSigningKey tv r jt s =
        (Return (Inl (OpenIDError verr)),
         \<lparr>world = snd (provGetter tv (world s)), trace = trace s @ [EvProvGetter]\<rparr>)"
    using st rs by (cases "call_provGetter tv s") (auto simp: getSigningKey_def)
  have c5: "fst (provGetter tv (world s)) = Inr provs \<and> providers_validate provs = None
       \<and> validateIssuer jt provs = Inr p \<and> validateAudiences jt p = Inr aud
       \<and> validateSubject jt = Inl verr \<longrightarrow>
      getSigningKey tv r jt s =
        (Return (Inl (OpenIDError verr)),
         \<lparr>world = snd (provGetter tv (world s)), trace = trace s @ [EvProvGetter]\<rparr>)"
    using st rs by (cases "call_provGetter tv s") (auto simp: getSigningKey_def)
  have c6: "fst (provGetter tv (world s)) = Inr provs \<and> providers_validate provs = None
       \<and> validateIssuer jt provs = Inr p \<and> validateAudiences jt p = Inr aud
       \<and> validateSubject jt = Inr sub \<longrightarrow>
      new_events s (snd (getSigningKey tv r jt s)) =
        EvProvGetter #
          key_fetch_events tv r (Issuer p) (getTokenKid jt) (snd (provGetter tv (world s)))"
    by (simp add: getSigningKey_events new_events_def accepted_provider_def)
  have c7: "length (filter is_getSigningKey (new_events s (snd (getSigningKey tv r jt s)))) =
       (case fst (provGetter tv (world s)) of
          Inl _ \<Rightarrow> 0
        | Inr provs \<Rightarrow> (case accepted_provider jt provs of None \<Rightarrow> 0 | Some _ \<Rightarrow> 1))"
  proof (cases "fst (provGetter tv (world s))")
    case (Inl e)
    then show ?thesis by (simp add: getSigningKey_events new_events_def)
  next
    case (Inr ps)
    then show ?thesis
      by (cases "accepted_provider jt ps")
         (simp_all add: getSigningKey_events new_events_def key_fetch_one_call)
  qed
  from c1 c2 c3 c4 c5 c6 c7 first_parse_key_calls [of s tv t r] show ?thesis by blast
qed

text \<open>Each step failing in turn, with every later step failing as well, and the accepted token.\<close>

theorem getSigningKey_order_witness:
  "getSigningKey (example_validator\<lparr>provGetter := (\<lambda>w. (Inl (OtherError ''registry down''), w))\<rparr>)
      () empty_token \<lparr>world = 0, trace = []\<rparr> =
     (Return (Inl (OtherError ''registry down'')), \<lparr>world = 0, trace = [EvProvGetter]\<rparr>)
   \<and> getSigningKey (example_validator\<lparr>provGetter := (\<lambda>w. (Inr [], w))\<rparr>)
      () empty_token \<lparr>world = 0, trace = []\<rparr> =
     (Return (Inl (ProvidersError InvalidProviders)), \<lparr>world = 0, trace = [EvProvGetter]\<rparr>)
   \<and> getSigningKey example_validator () empty_token \<lparr>world = 0, trace = []\<rparr> =
     (Return (Inl (OpenIDError
        \<lparr>Code = ValidationErrorInvalidIssuerType,
         Message = Sprintf ''Invalid Issuer type: %T'' [OpValue JNull],
         HTTPStatus = StatusUnauthorized\<rparr>)),
      \<lparr>world = 0, trace = [EvProvGetter]\<rparr>)
   \<and> getSigningKey example_validator () issuer_only_token \<lparr>world = 0, trace = []\<rparr> =
     (Return (Inl (OpenIDError
        \<lparr>Code = ValidationErrorInvalidAudienceType,
         Message = Sprintf ''Invalid Audiences type: %T'' [OpValue JNull],
         HTTPStatus = StatusUnauthorized\<rparr>)),
      \<lparr>world = 0, trace = [EvProvGetter]\<rparr>)
   \<and> getSigningKey example_validator () no_subject_token \<lparr>world = 0, trace = []\<rparr> =
     (Return (Inl (OpenIDError
        \<lparr>Code = ValidationErrorInvalidSubjectType,
         Message = Sprintf ''Invalid subject type: %T'' [OpValue JNull],
         HTTPStatus = StatusUnauthorized\<rparr>)),
      \<lparr>world = 0, trace = [EvProvGetter]\<rparr>)
   \<and> new_events \<lparr>world = 0, trace = []\<rparr>
        (snd (getSigningKey example_validator () example_token \<lparr>world = 0, trace = []\<rparr>)) =
       [EvProvGetter, EvGetSigningKey ''https://idp.example'' ''k1'', EvRsaParser [1]]
   \<and> length (filter is_getSigningKey (new_events \<lparr>world = 0, trace = []\<rparr>
        (snd (getSigningKey example_validator () example_token \<lparr>world = 0, trace = []\<rparr>)))) = 1
   \<and> length (filter is_getSigningKey (new_events \<lparr>world = 0, trace = []\<rparr>
        (snd (getSigningKey example_validator () empty_token \<lparr>world = 0, trace = []\<rparr>)))) = 0"
proof -
  let ?s = "\<lparr>world = 0 :: nat, trace = []\<rparr>"
  let ?down = "example_validator\<lparr>provGetter := (\<lambda>w. (Inl (OtherError ''registry down''), w))\<rparr>"
  let ?none = "example_validator\<lparr>provGetter := (\<lambda>w. (Inr [], w))\<rparr>"
  have pv: "providers_validate [] = Some InvalidProviders"
    "providers_validate [example_provider] = None"
    by (simp_all add: providers_validate_def example_provider_def)
  have 1: "getSigningKey ?down () empty_token ?s =
     (Return (Inl (OtherError ''registry down'')), \<lparr>world = 0, trace = [EvProvGetter]\<rparr>)"
    using getSigningKey_order
      [where tv = ?down and s = ?s and err = "OtherError ''registry down''" and r = "()"
         and jt = empty_token]
    by simp
  have 2: "getSigningKey ?none () empty_token ?s =
     (Return (Inl (ProvidersError InvalidProviders)), \<lparr>world = 0, trace = [EvProvGetter]\<rparr>)"
    using getSigningKey_order
      [where tv = ?none and s = ?s and provs = "[]" and perr = InvalidProviders and r = "()"
         and jt = empty_token] pv
    by simp
  have 3: "getSigningKey example_validator () empty_token ?s =
     (Return (Inl (OpenIDError
        \<lparr>Code = ValidationErrorInvalidIssuerType,
         Message = Sprintf ''Invalid Issuer type: %T'' [OpValue JNull],
         HTTPStatus = StatusUnauthorized\<rparr>)),
      \<lparr>world = 0, trace = [EvProvGetter]\<rparr>)"
    using getSigningKey_order
      [where tv = example_validator and s = ?s and provs = "[example_provider]" and r = "()"
         and jt = empty_token
         and verr = "\<lparr>Code = ValidationErrorInvalidIssuerType,
         Message = Sprintf ''Invalid Issuer type: %T'' [OpValue JNull],
         HTTPStatus = StatusUnauthorized\<rparr>"] pv empty_token_issuer
    by (simp add: example_validator_fields)
  have 4: "getSigningKey example_validator () issuer_only_token ?s =
     (Return (Inl (OpenIDError
        \<lparr>Code = ValidationErrorInvalidAudienceType,
         Message = Sprintf ''Invalid Audiences type: %T'' [OpValue JNull],
         HTTPStatus = StatusUnauthorized\<rparr>)),
      \<lparr>world = 0, trace = [EvProvGetter]\<rparr>)"
    using getSigningKey_order
      [where tv = example_validator and s = ?s and provs = "[example_provider]" and r = "()"
         and jt = issuer_only_token and p = example_provider
         and verr = "\<lparr>Code = ValidationErrorInvalidAudienceType,
         Message = Sprintf ''Invalid Audiences type: %T'' [OpValue JNull],
         HTTPStatus = StatusUnauthorized\<rparr>"] pv issuer_only_token_claims
    by (simp add: example_validator_fields)
  have 5: "getSigningKey example_validator () no_subject_token ?s =
     (Return (Inl (OpenIDError
        \<lparr>Code = ValidationErrorInvalidSubjectType,
         Message = Sprintf ''Invalid subject type: %T'' [OpValue JNull],
         HTTPStatus = StatusUnauthorized\<rparr>)),
      \<lparr>world = 0, trace = [EvProvGetter]\<rparr>)"
    using getSigningKey_order
      [where tv = example_validator and s = ?s and provs = "[example_provider]" and r = "()"
         and jt = no_subject_token and p = example_provider and aud = "''client-1''"
         and verr = "\<lparr>Code = ValidationErrorInvalidSubjectType,
         Message = Sprintf ''Invalid subject type: %T'' [OpValue JNull],
         HTTPStatus = StatusUnauthorized\<rparr>"] pv no_subject_token_claims
    by (simp add: example_validator_fields)
  note ok = getSigningKey_order
      [where tv = example_validator and s = ?s and provs = "[example_provider]" and r = "()"
         and jt = example_token and p = example_provider and aud = "''client-1''"
         and sub = "''user-42''"]
  have 6: "new_events ?s (snd (getSigningKey example_validator () example_token ?s)) =
       [EvProvGetter, EvGetSigningKey ''https://idp.example'' ''k1'', EvRsaParser [1]]"
    using ok pv example_claims_valid
    by (simp add: example_validator_fields key_fetch_events_def example_token_claims)
       (simp add: example_provider_def)
  have 7: "length (filter is_getSigningKey
        (new_events ?s (snd (getSigningKey example_validator () example_token ?s)))) = 1"
    using ok by (simp add: example_validator_fields example_accepted)
  have ea: "accepted_provider empty_token [example_provider] = None"
    by (simp add: accepted_provider_def pv empty_token_issuer)
  have 8: "length (filter is_getSigningKey
        (new_events ?s (snd (getSigningKey example_validator () empty_token ?s)))) = 0"
    using getSigningKey_order [where tv = example_validator and s = ?s and r = "()"
         and jt = empty_token]
    by (simp add: example_validator_fields ea)
  from 1 2 3 4 5 6 7 8 show ?thesis by blast
qed

text \<open>
  Claim C9. An error of the provider source, of the key resolver (fetch or flush) or of the
  decoder is what the callback returns, as the same value, on the first pass and on the
  renewal path.
\<close>

theorem collaborator_errors_unmodified:
  fixes tv :: "('r, 'w, 'x, 'k) idTokenValidator"
  shows
  "(fst (provGetter tv (world s)) = Inl err \<longrightarrow>
      fst (getSigningKey tv r jt s) = Return (Inl err))
   \<and> (provGetter tv (world s) = (Inr provs, w1) \<and> accepted_provider jt provs = Some p
       \<and> fst (keyGetter_getSigningKey tv r (Issuer p) (getTokenKid jt) w1) = Inl err \<longrightarrow>
      fst (getSigningKey tv r jt s) = Return (Inl err))
   \<and> (provGetter tv (world s) = (Inr provs, w1) \<and> accepted_provider jt provs = Some p
       \<and> keyGetter_getSigningKey tv r (Issuer p) (getTokenKid jt) w1 = (Inr key, w2)
       \<and> fst (rsaParser tv key w2) = Inl err \<longrightarrow>
      fst (getSigningKey tv r jt s) = Return (Inl err))
   \<and> (lookup (Claims jt) issuerClaimName = JStr iss
       \<and> fst (keyGetter_flushCachedSigningKeys tv iss (world s)) = Some err \<longrightarrow>
      fst (renewAndGetSigningKey tv r jt s) = Return (Inl err))
   \<and> (lookup (Claims jt) issuerClaimName = JStr iss
       \<and> keyGetter_flushCachedSigningKeys tv iss (world s) = (None, w1)
       \<and> fst (keyGetter_getSigningKey tv r iss (getTokenKid jt) w1) = Inl err \<longrightarrow>
      fst (renewAndGetSigningKey tv r jt s) = Return (Inl err))
   \<and> (lookup (Claims jt) issuerClaimName = JStr iss
       \<and> keyGetter_flushCachedSigningKeys tv iss (world s) = (None, w1)
       \<and> keyGetter_getSigningKey tv r iss (getTokenKid jt) w1 = (Inr key, w2)
       \<and> fst (rsaParser tv key w2) = Inl err \<longrightarrow>
      fst (renewAndGetSigningKey tv r jt s) = Return (Inl err))"
proof -
  have a: "fst (provGetter tv (world s)) = Inl err \<longrightarrow>
      fst (getSigningKey tv r jt s) = Return (Inl err)"
    by (auto simp: getSigningKey_def call_defs split: prod.splits)
  have b: "provGetter tv (world s) = (Inr provs, w1) \<and> accepted_provider jt provs = Some p
       \<and> fst (keyGetter_getSigningKey tv r (Issuer p) (getTokenKid jt) w1) = Inl err \<longrightarrow>
      fst (getSigningKey tv r jt s) = Return (Inl err)"
    by (auto simp: getSigningKey_def accepted_provider_def call_defs Let_def
             split: prod.splits sum.splits option.splits)
  have c: "provGetter tv (world s) = (Inr provs, w1) \<and> accepted_provider jt provs = Some p
       \<and> keyGetter_getSigningKey tv r (Issuer p) (getTokenKid jt) w1 = (Inr key, w2)
       \<and> fst (rsaParser tv key w2) = Inl err \<longrightarrow>
      fst (getSigningKey tv r jt s) = Return (Inl err)"
    by (auto simp: getSigningKey_def accepted_provider_def call_defs Let_def
             split: prod.splits sum.splits option.splits)
  have d: "lookup (Claims jt) issuerClaimName = JStr iss
       \<and> fst (keyGetter_flushCachedSigningKeys tv iss (world s)) = Some err \<longrightarrow>
      fst (renewAndGetSigningKey tv r jt s) = Return (Inl err)"
    by (auto simp: renewAndGetSigningKey_def call_defs split: prod.splits)
  have e: "lookup (Claims jt) issuerClaimName = JStr iss
       \<and> keyGetter_flushCachedSigningKeys tv iss (world s) = (None, w1)
       \<and> fst (keyGetter_getSigningKey tv r iss (getTokenKid jt) w1) = Inl err \<longrightarrow>
      fst (renewAndGetSigningKey tv r jt s) = Return (Inl err)"
    by (auto simp: renewAndGetSigningKey_def call_defs Let_def split: prod.splits)
  have f: "lookup (Claims jt) issuerClaimName = JStr iss
       \<and> keyGetter_flushCachedSigningKeys tv iss (world s) = (None, w1)
       \<and> keyGetter_getSigningKey tv r iss (getTokenKid jt) w1 = (Inr key, w2)
       \<and> fst (rsaParser tv key w2) = Inl err \<longrightarrow>
      fst (renewAndGetSigningKey tv r jt s) = Return (Inl err)"
    by (auto simp: renewAndGetSigningKey_def call_defs Let_def split: prod.splits)
  from a b c d e f show ?thesis by blast
qed

text \<open>Each collaborator failing in turn, on both paths.\<close>

theorem collaborator_errors_unmodified_witness:
  "fst (getSigningKey
          (example_validator\<lparr>provGetter := (\<lambda>w. (Inl (OtherError ''registry down''), w))\<rparr>)
          () example_token \<lparr>world = 0, trace = []\<rparr>) =
     Return (Inl (OtherError ''registry down''))
   \<and> fst (getSigningKey
          (example_validator\<lparr>keyGetter_getSigningKey :=
             (\<lambda>r iss kid w. (Inl (OtherError ''keys unreachable''), w))\<rparr>)
          () example_token \<lparr>world = 0, trace = []\<rparr>) =
     Return (Inl (OtherError ''keys unreachable''))
   \<and> fst (getSigningKey
          (example_validator\<lparr>rsaParser := (\<lambda>key w. (Inl (OtherError ''bad pem''), w))\<rparr>)
          () example_token \<lparr>world = 0, trace = []\<rparr>) =
     Return (Inl (OtherError ''bad pem''))
   \<and> fst (renewAndGetSigningKey
          (example_validator\<lparr>keyGetter_flushCachedSigningKeys :=
             (\<lambda>iss w. (Some (OtherError ''flush failed''), w))\<rparr>)
          () example_token \<lparr>world = 0, trace = []\<rparr>) =
     Return (Inl (OtherError ''flush failed''))
   \<and> fst (renewAndGetSigningKey
          (example_validator\<lparr>keyGetter_getSigningKey :=
             (\<lambda>r iss kid w. (Inl (OtherError ''keys unreachable''), w))\<rparr>)
          () example_token \<lparr>world = 0, trace = []\<rparr>) =
     Return (Inl (OtherError ''keys unreachable''))
   \<and> fst (renewAndGetSigningKey
          (example_validator\<lparr>rsaParser := (\<lambda>key w. (Inl (OtherError ''bad pem''), w))\<rparr>)
          () example_token \<lparr>world = 0, trace = []\<rparr>) =
     Return (Inl (OtherError ''bad pem''))"
proof -
  let ?s = "\<lparr>world = 0 :: nat, trace = []\<rparr>"
  let ?down = "example_validator\<lparr>provGetter := (\<lambda>w. (Inl (OtherError ''registry down''), w))\<rparr>"
  let ?nokey = "example_validator\<lparr>keyGetter_getSigningKey :=
             (\<lambda>r iss kid w. (Inl (OtherError ''keys unreachable''), w))\<rparr>"
  let ?nopem = "example_validator\<lparr>rsaParser := (\<lambda>key w. (Inl (OtherError ''bad pem''), w))\<rparr>"
  let ?noflush = "example_validator\<lparr>keyGetter_flushCachedSigningKeys :=
             (\<lambda>iss w. (Some (OtherError ''flush failed''), w))\<rparr>"
  have 1: "fst (getSigningKey ?down () example_token ?s) = Return (Inl (OtherError ''registry down''))"
    using collaborator_errors_unmodified
      [where tv = ?down and s = ?s and r = "()" and jt = example_token
         and err = "OtherError ''registry down''"]
    by simp
  have 2: "fst (getSigningKey ?nokey () example_token ?s) =
             Return (Inl (OtherError ''keys unreachable''))"
    using collaborator_errors_unmodified
      [where tv = ?nokey and s = ?s and r = "()" and jt = example_token
         and provs = "[example_provider]" and ?w1.0 = 0 and p = example_provider
         and err = "OtherError ''keys unreachable''"]
    by (simp add: example_validator_fields example_accepted)
  have 3: "fst (getSigningKey ?nopem () example_token ?s) = Return (Inl (OtherError ''bad pem''))"
    using collaborator_errors_unmodified
      [where tv = ?nopem and s = ?s and r = "()" and jt = example_token
         and provs = "[example_provider]" and ?w1.0 = 0 and p = example_provider
         and key = "[1]" and ?w2.0 = 0 and err = "OtherError ''bad pem''"]
    by (simp add: example_validator_fields example_accepted)
  have 4: "fst (renewAndGetSigningKey ?noflush () example_token ?s) =
             Return (Inl (OtherError ''flush failed''))"
    using collaborator_errors_unmodified
      [where tv = ?noflush and s = ?s and r = "()" and jt = example_token
         and iss = "''https://idp.example''" and err = "OtherError ''flush failed''"]
    by (simp add: example_token_claims)
  have 5: "fst (renewAndGetSigningKey ?nokey () example_token ?s) =
             Return (Inl (OtherError ''keys unreachable''))"
    using collaborator_errors_unmodified
      [where tv = ?nokey and s = ?s and r = "()" and jt = example_token
         and iss = "''https://idp.example''" and ?w1.0 = 1
         and err = "OtherError ''keys unreachable''"]
    by (simp add: example_token_claims example_validator_fields)
  have 6: "fst (renewAndGetSigningKey ?nopem () example_token ?s) =
             Return (Inl (OtherError ''bad pem''))"
    using collaborator_errors_unmodified
      [where tv = ?nopem and s = ?s and r = "()" and jt = example_token
         and iss = "''https://idp.example''" and ?w1.0 = 1 and key = "[2]" and ?w2.0 = 1
         and err = "OtherError ''bad pem''"]
    by (simp add: example_token_claims example_validator_fields)
  from 1 2 3 4 5 6 show ?thesis by blast
qed

section \<open>The orchestrator\<close>

lemma getSigningKey_quiet:
  "\<exists>evs. trace (snd (getSigningKey tv r jt s)) = trace s @ evs \<and> filter is_parse evs = []"
proof (cases "fst (provGetter tv (world s))")
  case (Inl err)
  then show ?thesis
    by (simp add: getSigningKey_events)
next
  case (Inr provs)
  then show ?thesis
    by (cases "accepted_provider jt provs")
       (simp_all add: getSigningKey_events key_fetch_no_parse)
qed

lemma renew_quiet:
  "\<exists>evs. trace (snd (renewAndGetSigningKey tv r jt s)) = trace s @ evs \<and> filter is_parse evs = []"
proof (cases "as_string (lookup (Claims jt) issuerClaimName)")
  case None
  then show ?thesis by (simp add: renew_panic_state)
next
  case (Some iss)
  then have l: "lookup (Claims jt) issuerClaimName = JStr iss"
    by simp
  show ?thesis
    by (cases "fst (keyGetter_flushCachedSigningKeys tv iss (world s))")
       (simp_all add: renew_events [OF l] key_fetch_no_parse)
qed

lemma call_jwtParser_events:
  assumes "\<And>tok s. \<exists>evs. trace (snd (cb tok s)) = trace s @ evs \<and> filter is_parse evs = []"
  shows "\<exists>evs. trace (snd (call_jwtParser tv t cb s)) = trace s @ EvParse t # evs
               \<and> filter is_parse evs = []"
proof (cases "decode_token (jwtParser tv) t (world s)")
  case (Pair d w1)
  show ?thesis
  proof (cases d)
    case (Inl err)
    with Pair show ?thesis by (simp add: call_jwtParser_def)
  next
    case (Inr tok)
    obtain evs where e: "trace (snd (cb tok \<lparr>world = w1, trace = trace s @ [EvParse t]\<rparr>)) =
                          (trace s @ [EvParse t]) @ evs" and q: "filter is_parse evs = []"
      using assms [of tok "\<lparr>world = w1, trace = trace s @ [EvParse t]\<rparr>"] by auto
    from Pair Inr e q show ?thesis
      by (auto simp: call_jwtParser_def split: prod.splits outcome.splits)
  qed
qed

lemma validate_no_retry:
  "\<not> retry_needed (fst (call_jwtParser tv t (getSigningKey tv r) s)) \<Longrightarrow>
   validate conv tv r t s = finish conv (call_jwtParser tv t (getSigningKey tv r) s)"
  by (cases "call_jwtParser tv t (getSigningKey tv r) s")
     (auto simp: validate_def finish_def split: outcome.splits sum.splits)

lemma validate_retry:
  "retry_needed (fst (call_jwtParser tv t (getSigningKey tv r) s)) \<Longrightarrow>
   validate conv tv r t s =
     finish conv (call_jwtParser tv t (renewAndGetSigningKey tv r)
                    (snd (call_jwtParser tv t (getSigningKey tv r) s)))"
  by (cases "call_jwtParser tv t (getSigningKey tv r) s")
     (auto simp: validate_def finish_def split: outcome.splits sum.splits prod.splits)

lemma validate_events:
  "\<exists>evs. trace (snd (validate conv tv r t s)) = trace s @ evs \<and>
     parse_count evs =
       (if retry_needed (fst (call_jwtParser tv t (getSigningKey tv r) s)) then 2 else 1)"
proof -
  let ?first = "call_jwtParser tv t (getSigningKey tv r) s"
  obtain evs1 where e1: "trace (snd ?first) = trace s @ EvParse t # evs1"
    and q1: "filter is_parse evs1 = []"
    using call_jwtParser_events [of "getSigningKey tv r" tv t s, OF getSigningKey_quiet] by blast
  show ?thesis
  proof (cases "retry_needed (fst ?first)")
    case False
    then have "snd (validate conv tv r t s) = snd ?first"
      by (simp add: validate_no_retry finish_def)
    with e1 q1 False show ?thesis
      by (simp add: parse_count_def)
  next
    case True
    let ?second = "call_jwtParser tv t (renewAndGetSigningKey tv r) (snd ?first)"
    obtain evs2 where e2: "trace (snd ?second) = trace (snd ?first) @ EvParse t # evs2"
      and q2: "filter is_parse evs2 = []"
      using call_jwtParser_events [of "renewAndGetSigningKey tv r" tv t "snd ?first", OF renew_quiet]
      by blast
    from True have "snd (validate conv tv r t s) = snd ?second"
      by (simp add: validate_retry finish_def)
    with e1 e2 q1 q2 True show ?thesis
      by (simp add: parse_count_def)
  qed
qed

lemma retry_needed_iff:
  "retry_needed out \<longleftrightarrow>
     (\<exists>errs inner. out = Return (Inl (JwtValidationError errs inner))
        \<and> errs AND ValidationErrorSignatureInvalid \<noteq> 0)"
proof (cases out)
  case Panic
  then show ?thesis by simp
next
  case (Return res)
  show ?thesis
  proof (cases res)
    case (Inl err)
    with Return show ?thesis by (cases err) auto
  next
    case (Inr jt)
    with Return show ?thesis by simp
  qed
qed

lemma call_jwtParser_no_panic:
  assumes "\<And>tok s'. fst (decode_token (jwtParser tv) t (world s)) = Inr tok \<Longrightarrow>
             fst (cb tok s') \<noteq> Panic"
  shows "fst (call_jwtParser tv t cb s) \<noteq> Panic"
proof (cases "decode_token (jwtParser tv) t (world s)")
  case (Pair d w1)
  show ?thesis
  proof (cases d)
    case (Inl err)
    with Pair show ?thesis by (simp add: call_jwtParser_def)
  next
    case (Inr tok)
    with Pair assms [of tok "\<lparr>world = w1, trace = trace s @ [EvParse t]\<rparr>"] show ?thesis
      by (auto simp: call_jwtParser_def split: prod.splits outcome.splits)
  qed
qed

lemma first_parse_signature_invalid:
  assumes sig: "\<forall>tok res w err. fst (verify_token (jwtParser tv) t tok res w) = Inl err
              \<and> signature_invalid err \<longrightarrow> (\<exists>k. res = Inr k)"
    and dec: "fst (decode_token (jwtParser tv) t (world s)) = Inr tok"
    and first: "fst (call_jwtParser tv t (getSigningKey tv r) s) = Return (Inl err)"
    and inv: "signature_invalid err"
  shows "\<exists>iss. lookup (Claims tok) issuerClaimName = JStr iss"
proof -
  obtain w1 where d: "decode_token (jwtParser tv) t (world s) = (Inr tok, w1)"
    using dec by (cases "decode_token (jwtParser tv) t (world s)") simp
  let ?s0 = "\<lparr>world = w1, trace = trace s @ [EvParse t]\<rparr>"
  obtain out s2 where cb: "getSigningKey tv r tok ?s0 = (out, s2)"
    by (cases "getSigningKey tv r tok ?s0")
  from getSigningKey_no_panic [of tv r tok ?s0] cb obtain res where out: "out = Return res"
    by (cases out) simp_all
  from first d cb out have v: "fst (verify_token (jwtParser tv) t tok res (world s2)) = Inl err"
    by (simp add: call_jwtParser_def split: prod.splits)
  from sig v inv obtain k where "res = Inr k" by blast
  with cb out have "fst (getSigningKey tv r tok ?s0) = Return (Inr k)" by simp
  from getSigningKey_key_issuer [OF this] show ?thesis by blast
qed

lemma finish_no_panic: "fst res \<noteq> Panic \<Longrightarrow> fst (finish conv res) \<noteq> Panic"
  by (cases "fst res") (simp_all add: finish_def)

lemma validate_no_panic:
  assumes det: "\<forall>w w'. fst (decode_token (jwtParser tv) t w) = fst (decode_token (jwtParser tv) t w')"
    and sig: "\<forall>tok res w err. fst (verify_token (jwtParser tv) t tok res w) = Inl err
              \<and> signature_invalid err \<longrightarrow> (\<exists>k. res = Inr k)"
  shows "fst (validate conv tv r t s) \<noteq> Panic"
proof (cases "retry_needed (fst (call_jwtParser tv t (getSigningKey tv r) s))")
  case False
  have "fst (call_jwtParser tv t (getSigningKey tv r) s) \<noteq> Panic"
    by (rule call_jwtParser_no_panic) (rule getSigningKey_no_panic)
  then show ?thesis
    by (simp add: validate_no_retry [OF False] finish_no_panic)
next
  case True
  let ?first = "call_jwtParser tv t (getSigningKey tv r) s"
  from True obtain err where f: "fst ?first = Return (Inl err)" and inv: "signature_invalid err"
    by (cases "fst ?first" rule: retry_needed.cases) auto
  have "fst (call_jwtParser tv t (renewAndGetSigningKey tv r) (snd ?first)) \<noteq> Panic"
  proof (rule call_jwtParser_no_panic)
    fix tok s'
    assume "fst (decode_token (jwtParser tv) t (world (snd ?first))) = Inr tok"
    then have dec: "fst (decode_token (jwtParser tv) t (world s)) = Inr tok"
      using det by metis
    from first_parse_signature_invalid [OF sig dec f inv]
    obtain iss where "lookup (Claims tok) issuerClaimName = JStr iss" by blast
    then show "fst (renewAndGetSigningKey tv r tok s') \<noteq> Panic"
      by (simp add: renew_panic)
  qed
  then show ?thesis
    by (simp add: validate_retry [OF True] finish_no_panic)
qed

text \<open>
  Claim C1. A call of \<^verbatim>\<open>validate\<close> extends the trace by one parser call, or by two exactly
  when the first parse failed with a validation error of the parser that carries the
  signature-invalid flag; an error of claim validation is no such error, neither as such nor
  wrapped by the parser without that flag. Without that
  flag the result of the first parse is final. With it the result of the second parse, made
  with the renewal callback, is final whatever it is. The renewal callback, on a token with
  a string issuer \<open>iss\<close>, flushes the cache for \<open>iss\<close>, then fetches the key for \<open>iss\<close> and the
  key identifier of the token unless the flush failed, then decodes it unless the fetch
  failed; it depends on no other claim of the token and not on the provider source.
\<close>

theorem validate_retries_once:
  fixes tv :: "('r, 'w, 'x, 'k) idTokenValidator"
  shows
  "trace (snd (validate conv tv r t s)) = trace s @ new_events s (snd (validate conv tv r t s))
   \<and> parse_count (new_events s (snd (validate conv tv r t s))) =
       (if retry_needed (fst (call_jwtParser tv t (getSigningKey tv r) s)) then 2 else 1)
   \<and> parse_count (new_events s (snd (validate conv tv r t s))) \<le> 2
   \<and> (retry_needed out \<longleftrightarrow>
         (\<exists>errs inner. out = Return (Inl (JwtValidationError errs inner :: 'x error))
            \<and> errs AND ValidationErrorSignatureInvalid \<noteq> 0))
   \<and> \<not> retry_needed (Return (Inl (OpenIDError verr :: 'x error)))
   \<and> (errs AND ValidationErrorSignatureInvalid = 0 \<longrightarrow>
         \<not> retry_needed (Return (Inl (JwtValidationError errs (Some (OpenIDError verr)) :: 'x error))))
   \<and> (\<not> retry_needed (fst (call_jwtParser tv t (getSigningKey tv r) s)) \<longrightarrow>
         validate conv tv r t s = finish conv (call_jwtParser tv t (getSigningKey tv r) s))
   \<and> (retry_needed (fst (call_jwtParser tv t (getSigningKey tv r) s)) \<longrightarrow>
         validate conv tv r t s =
           finish conv (call_jwtParser tv t (renewAndGetSigningKey tv r)
                          (snd (call_jwtParser tv t (getSigningKey tv r) s))))
   \<and> (lookup (Claims jt) issuerClaimName = JStr iss \<longrightarrow>
         new_events s (snd (renewAndGetSigningKey tv r jt s)) =
           EvFlushCachedSigningKeys iss #
             (case fst (keyGetter_flushCachedSigningKeys tv iss (world s)) of
                Some _ \<Rightarrow> []
              | None \<Rightarrow>
                  key_fetch_events tv r iss (getTokenKid jt)
                    (snd (keyGetter_flushCachedSigningKeys tv iss (world s)))))
   \<and> (Claims jt issuerClaimName = Claims jt' issuerClaimName
        \<and> Header jt keyIDJwtHeaderName = Header jt' keyIDJwtHeaderName \<longrightarrow>
         renewAndGetSigningKey (tv\<lparr>provGetter := pg\<rparr>) r jt' s = renewAndGetSigningKey tv r jt s)"
proof -
  obtain evs where e: "trace (snd (validate conv tv r t s)) = trace s @ evs"
    and c: "parse_count evs =
       (if retry_needed (fst (call_jwtParser tv t (getSigningKey tv r) s)) then 2 else 1)"
    using validate_events [of conv tv r t s] by blast
  have n: "new_events s (snd (validate conv tv r t s)) = evs"
    using e by (simp add: new_events_def)
  have a: "trace (snd (validate conv tv r t s)) =
             trace s @ new_events s (snd (validate conv tv r t s))"
    using e n by simp
  have b: "parse_count (new_events s (snd (validate conv tv r t s))) =
       (if retry_needed (fst (call_jwtParser tv t (getSigningKey tv r) s)) then 2 else 1)"
    using c n by simp
  have b': "parse_count (new_events s (snd (validate conv tv r t s))) \<le> 2"
    using b by simp
  have d: "\<not> retry_needed (Return (Inl (OpenIDError verr :: 'x error)))"
    by simp
  have d': "errs AND ValidationErrorSignatureInvalid = 0 \<longrightarrow>
         \<not> retry_needed (Return (Inl (JwtValidationError errs (Some (OpenIDError verr)) :: 'x error)))"
    by simp
  have f: "lookup (Claims jt) issuerClaimName = JStr iss \<longrightarrow>
         new_events s (snd (renewAndGetSigningKey tv r jt s)) =
           EvFlushCachedSigningKeys iss #
             (case fst (keyGetter_flushCachedSigningKeys tv iss (world s)) of
                Some _ \<Rightarrow> []
              | None \<Rightarrow>
                  key_fetch_events tv r iss (getTokenKid jt)
                    (snd (keyGetter_flushCachedSigningKeys tv iss (world s))))"
    by (simp add: renew_events new_events_def)
  have g: "Claims jt issuerClaimName = Claims jt' issuerClaimName
        \<and> Header jt keyIDJwtHeaderName = Header jt' keyIDJwtHeaderName \<longrightarrow>
         renewAndGetSigningKey (tv\<lparr>provGetter := pg\<rparr>) r jt' s = renewAndGetSigningKey tv r jt s"
    using renew_ignores_other_claims [of jt jt' tv r s]
    by (simp add: renew_ignores_providers)
  from a b b' d d' f g retry_needed_iff [of out] validate_no_retry [of tv t r s conv]
    validate_retry [of tv t r s conv]
  show ?thesis by blast
qed

text \<open>An outdated cached key that the flush renews (two parses, accepted), a current key (one
  parse), a flush without effect (two parses, the second signature mismatch is final), and
  an unknown issuer (one parse, the error of claim validation is not retried).\<close>

theorem validate_retries_once_witness:
  "retry_needed (fst (call_jwtParser example_validator ''good'' (getSigningKey example_validator ())
                        \<lparr>world = 0, trace = []\<rparr>))
   \<and> parse_count (new_events \<lparr>world = 0, trace = []\<rparr>
         (snd (validate id example_validator () ''good'' \<lparr>world = 0, trace = []\<rparr>))) = 2
   \<and> validate id example_validator () ''good'' \<lparr>world = 0, trace = []\<rparr> =
       (Return (Inr example_token),
        \<lparr>world = 1,
         trace = [EvParse ''good'', EvProvGetter, EvGetSigningKey ''https://idp.example'' ''k1'',
                  EvRsaParser [1],
                  EvParse ''good'', EvFlushCachedSigningKeys ''https://idp.example'',
                  EvGetSigningKey ''https://idp.example'' ''k1'', EvRsaParser [2]]\<rparr>)
   \<and> \<not> retry_needed (fst (call_jwtParser example_validator ''good''
                           (getSigningKey example_validator ()) \<lparr>world = 1, trace = []\<rparr>))
   \<and> parse_count (new_events \<lparr>world = 1, trace = []\<rparr>
         (snd (validate id example_validator () ''good'' \<lparr>world = 1, trace = []\<rparr>))) = 1
   \<and> validate id example_validator () ''good'' \<lparr>world = 1, trace = []\<rparr> =
       (Return (Inr example_token),
        \<lparr>world = 1,
         trace = [EvParse ''good'', EvProvGetter, EvGetSigningKey ''https://idp.example'' ''k1'',
                  EvRsaParser [2]]\<rparr>)
   \<and> retry_needed (fst (call_jwtParser stale_validator ''good'' (getSigningKey stale_validator ())
                        \<lparr>world = 0, trace = []\<rparr>))
   \<and> parse_count (new_events \<lparr>world = 0, trace = []\<rparr>
         (snd (validate id stale_validator () ''good'' \<lparr>world = 0, trace = []\<rparr>))) = 2
   \<and> fst (validate id stale_validator () ''good'' \<lparr>world = 0, trace = []\<rparr>) =
       Return (Inl (JwtValidationError 4 None))
   \<and> (2 :: 32 word) AND ValidationErrorSignatureInvalid = 0
   \<and> \<not> retry_needed (fst (call_jwtParser foreign_validator ''good''
                           (getSigningKey foreign_validator ()) \<lparr>world = 0, trace = []\<rparr>))
   \<and> parse_count (new_events \<lparr>world = 0, trace = []\<rparr>
         (snd (validate id foreign_validator () ''good'' \<lparr>world = 0, trace = []\<rparr>))) = 1
   \<and> validate id foreign_validator () ''good'' \<lparr>world = 0, trace = []\<rparr> =
       (Return (Inl (JwtValidationError 2 (Some (OpenIDError
          \<lparr>Code = ValidationErrorIssuerNotFound,
           Message = Sprintf ''No provider was registered with issuer: %v''
                       [OpString ''https://idp.example''],
           HTTPStatus = StatusUnauthorized\<rparr>)))),
        \<lparr>world = 0, trace = [EvParse ''good'', EvProvGetter]\<rparr>)
   \<and> new_events \<lparr>world = 0, trace = []\<rparr>
         (snd (renewAndGetSigningKey example_validator () example_token \<lparr>world = 0, trace = []\<rparr>)) =
       [EvFlushCachedSigningKeys ''https://idp.example'',
        EvGetSigningKey ''https://idp.example'' ''k1'', EvRsaParser [2]]
   \<and> renewAndGetSigningKey
         (example_validator\<lparr>provGetter := (\<lambda>w. (Inl (OtherError ''registry down''), w))\<rparr>)
         () (example_token\<lparr>Claims := (Claims example_token)(''aud'' := None)\<rparr>)
         \<lparr>world = 0, trace = []\<rparr> =
       renewAndGetSigningKey example_validator () example_token \<lparr>world = 0, trace = []\<rparr>"
proof -
  let ?s = "\<lparr>world = 0 :: nat, trace = []\<rparr>"
  let ?s1 = "\<lparr>world = 1 :: nat, trace = []\<rparr>"
  let ?jt' = "example_token\<lparr>Claims := (Claims example_token)(''aud'' := None)\<rparr>"
  let ?pg = "\<lambda>w :: nat. (Inl (OtherError ''registry down'') :: string error + Provider list, w)"
  have r0: "retry_needed (fst (call_jwtParser example_validator ''good''
                                 (getSigningKey example_validator ()) ?s))"
    by (simp add: example_first_parse ValidationErrorSignatureInvalid_value)
  have r1: "\<not> retry_needed (fst (call_jwtParser example_validator ''good''
                                 (getSigningKey example_validator ()) ?s1))"
    by (simp add: example_first_parse)
  have r2: "retry_needed (fst (call_jwtParser stale_validator ''good''
                                 (getSigningKey stale_validator ()) ?s))"
    by (simp add: stale_first_parse ValidationErrorSignatureInvalid_value)
  note t0 = validate_retries_once
    [where tv = example_validator and conv = id and r = "()" and t = "''good''" and s = ?s
       and jt = example_token and iss = "''https://idp.example''" and jt' = ?jt' and pg = ?pg]
  note t1 = validate_retries_once
    [where tv = example_validator and conv = id and r = "()" and t = "''good''" and s = ?s1]
  note t2 = validate_retries_once
    [where tv = stale_validator and conv = id and r = "()" and t = "''good''" and s = ?s]
  have 1: "parse_count (new_events ?s (snd (validate id example_validator () ''good'' ?s))) = 2"
  proof -
    from t0 have "parse_count (new_events ?s (snd (validate id example_validator () ''good'' ?s))) =
        (if retry_needed (fst (call_jwtParser example_validator ''good''
                                 (getSigningKey example_validator ()) ?s)) then 2 else 1)"
      by blast
    with r0 show ?thesis by simp
  qed
  have 2: "validate id example_validator () ''good'' ?s =
       (Return (Inr example_token),
        \<lparr>world = 1,
         trace = [EvParse ''good'', EvProvGetter, EvGetSigningKey ''https://idp.example'' ''k1'',
                  EvRsaParser [1],
                  EvParse ''good'', EvFlushCachedSigningKeys ''https://idp.example'',
                  EvGetSigningKey ''https://idp.example'' ''k1'', EvRsaParser [2]]\<rparr>)"
  proof -
    from t0 r0 have "validate id example_validator () ''good'' ?s =
        finish id (call_jwtParser example_validator ''good''
                     (renewAndGetSigningKey example_validator ())
                     (snd (call_jwtParser example_validator ''good''
                             (getSigningKey example_validator ()) ?s)))"
      by blast
    then show ?thesis
      by (simp add: finish_def example_first_parse example_second_parse)
  qed
  have 3: "parse_count (new_events ?s1 (snd (validate id example_validator () ''good'' ?s1))) = 1"
  proof -
    from t1 have "parse_count (new_events ?s1 (snd (validate id example_validator () ''good'' ?s1))) =
        (if retry_needed (fst (call_jwtParser example_validator ''good''
                                 (getSigningKey example_validator ()) ?s1)) then 2 else 1)"
      by blast
    with r1 show ?thesis by simp
  qed
  have 4: "validate id example_validator () ''good'' ?s1 =
       (Return (Inr example_token),
        \<lparr>world = 1,
         trace = [EvParse ''good'', EvProvGetter, EvGetSigningKey ''https://idp.example'' ''k1'',
                  EvRsaParser [2]]\<rparr>)"
  proof -
    from t1 r1 have "validate id example_validator () ''good'' ?s1 =
        finish id (call_jwtParser example_validator ''good''
                     (getSigningKey example_validator ()) ?s1)"
      by blast
    then show ?thesis
      by (simp add: finish_def example_first_parse)
  qed
  have 5: "parse_count (new_events ?s (snd (validate id stale_validator () ''good'' ?s))) = 2"
  proof -
    from t2 have "parse_count (new_events ?s (snd (validate id stale_validator () ''good'' ?s))) =
        (if retry_needed (fst (call_jwtParser stale_validator ''good''
                                 (getSigningKey stale_validator ()) ?s)) then 2 else 1)"
      by blast
    with r2 show ?thesis by simp
  qed
  have 6: "fst (validate id stale_validator () ''good'' ?s) =
             Return (Inl (JwtValidationError 4 None))"
  proof -
    from t2 r2 have "validate id stale_validator () ''good'' ?s =
        finish id (call_jwtParser stale_validator ''good''
                     (renewAndGetSigningKey stale_validator ())
                     (snd (call_jwtParser stale_validator ''good''
                             (getSigningKey stale_validator ()) ?s)))"
      by blast
    then show ?thesis
      by (simp add: finish_def stale_first_parse stale_second_parse)
  qed
  have l: "lookup (Claims example_token) issuerClaimName = JStr ''https://idp.example''"
    by (rule example_token_claims)
  have 7: "new_events ?s (snd (renewAndGetSigningKey example_validator () example_token ?s)) =
       [EvFlushCachedSigningKeys ''https://idp.example'',
        EvGetSigningKey ''https://idp.example'' ''k1'', EvRsaParser [2]]"
  proof -
    from t0 l have "new_events ?s (snd (renewAndGetSigningKey example_validator () example_token ?s)) =
           EvFlushCachedSigningKeys ''https://idp.example'' #
             (case fst (keyGetter_flushCachedSigningKeys example_validator
                          ''https://idp.example'' (world ?s)) of
                Some _ \<Rightarrow> []
              | None \<Rightarrow>
                  key_fetch_events example_validator () ''https://idp.example''
                    (getTokenKid example_token)
                    (snd (keyGetter_flushCachedSigningKeys example_validator
                            ''https://idp.example'' (world ?s))))"
      by blast
    then show ?thesis
      by (simp add: example_token_claims example_validator_fields key_fetch_events_def)
  qed
  have c: "Claims example_token issuerClaimName = Claims ?jt' issuerClaimName
        \<and> Header example_token keyIDJwtHeaderName = Header ?jt' keyIDJwtHeaderName"
    by (simp add: claim_names)
  have 8: "renewAndGetSigningKey (example_validator\<lparr>provGetter := ?pg\<rparr>) () ?jt' ?s =
       renewAndGetSigningKey example_validator () example_token ?s"
    using t0 c by blast
  let ?nf = "\<lparr>Code = ValidationErrorIssuerNotFound,
           Message = Sprintf ''No provider was registered with issuer: %v''
                       [OpString ''https://idp.example''],
           HTTPStatus = StatusUnauthorized\<rparr>"
  note t3 = validate_retries_once
    [where tv = foreign_validator and conv = id and r = "()" and t = "''good''" and s = ?s
       and errs = 2 and verr = ?nf]
  have z: "(2 :: 32 word) AND ValidationErrorSignatureInvalid = 0"
    by (simp add: ValidationErrorSignatureInvalid_value)
  have r3: "\<not> retry_needed (fst (call_jwtParser foreign_validator ''good''
                                   (getSigningKey foreign_validator ()) ?s))"
  proof -
    from t3 z have "\<not> retry_needed
        (Return (Inl (JwtValidationError 2 (Some (OpenIDError ?nf)) :: string error)))"
      by blast
    then show ?thesis by (simp add: foreign_first_parse)
  qed
  have 9: "parse_count (new_events ?s (snd (validate id foreign_validator () ''good'' ?s))) = 1"
  proof -
    from t3 have "parse_count (new_events ?s (snd (validate id foreign_validator () ''good'' ?s))) =
        (if retry_needed (fst (call_jwtParser foreign_validator ''good''
                                 (getSigningKey foreign_validator ()) ?s)) then 2 else 1)"
      by blast
    with r3 show ?thesis by simp
  qed
  have 10: "validate id foreign_validator () ''good'' ?s =
       (Return (Inl (JwtValidationError 2 (Some (OpenIDError ?nf)))),
        \<lparr>world = 0, trace = [EvParse ''good'', EvProvGetter]\<rparr>)"
  proof -
    from t3 r3 have "validate id foreign_validator () ''good'' ?s =
        finish id (call_jwtParser foreign_validator ''good''
                     (getSigningKey foreign_validator ()) ?s)"
      by blast
    then show ?thesis
      by (simp add: finish_def foreign_first_parse)
  qed
  from r0 r1 r2 1 2 3 4 5 6 z r3 9 10 7 8 show ?thesis by blast
qed

text \<open>
  Claim C10. The renewal callback panics exactly when the issuer claim is not a string, so
  for a string issuer the assertion succeeds. The first-pass callback never panics, and when
  it returned a key the issuer claim of that token is a non-empty string. Hence
  \<^verbatim>\<open>validate\<close> never panics with a parser that decodes a token string to the same result in
  every world and reports the signature-invalid flag only after the callback returned a key.
  The key identifier is the empty string when the header has no \<^verbatim>\<open>kid\<close> or one that is not a
  string, and both callbacks pass that key identifier to the key resolver.
\<close>

theorem renewal_issuer_assertion:
  fixes tv :: "('r, 'w, 'x, 'k) idTokenValidator"
  shows
  "(fst (renewAndGetSigningKey tv r jt s) = Panic \<longleftrightarrow>
      as_string (lookup (Claims jt) issuerClaimName) = None)
   \<and> (lookup (Claims jt) issuerClaimName = JStr iss \<longrightarrow>
        fst (renewAndGetSigningKey tv r jt s) \<noteq> Panic)
   \<and> fst (getSigningKey tv r jt s) \<noteq> Panic
   \<and> (fst (getSigningKey tv r jt s) = Return (Inr key) \<longrightarrow>
        (\<exists>ti. lookup (Claims jt) issuerClaimName = JStr ti \<and> ti \<noteq> [])
        \<and> fst (renewAndGetSigningKey tv r jt s') \<noteq> Panic)
   \<and> ((\<forall>w w'. fst (decode_token (jwtParser tv) t w) = fst (decode_token (jwtParser tv) t w'))
       \<and> (\<forall>tok res w err. fst (verify_token (jwtParser tv) t tok res w) = Inl err
              \<and> signature_invalid err \<longrightarrow> (\<exists>k. res = Inr k))
       \<longrightarrow> fst (validate conv tv r t s) \<noteq> Panic)
   \<and> (Header jt keyIDJwtHeaderName = None \<longrightarrow> getTokenKid jt = [])
   \<and> (Header jt keyIDJwtHeaderName = Some v \<and> as_string v = None \<longrightarrow> getTokenKid jt = [])
   \<and> (Header jt keyIDJwtHeaderName = Some (JStr kid) \<longrightarrow> getTokenKid jt = kid)
   \<and> (EvGetSigningKey i k \<in> set (new_events s (snd (getSigningKey tv r jt s))) \<longrightarrow>
        k = getTokenKid jt)
   \<and> (EvGetSigningKey i k \<in> set (new_events s (snd (renewAndGetSigningKey tv r jt s))) \<longrightarrow>
        k = getTokenKid jt)"
proof -
  have a: "fst (renewAndGetSigningKey tv r jt s) = Panic \<longleftrightarrow>
      as_string (lookup (Claims jt) issuerClaimName) = None"
    by (rule renew_panic)
  have b: "lookup (Claims jt) issuerClaimName = JStr iss \<longrightarrow>
        fst (renewAndGetSigningKey tv r jt s) \<noteq> Panic"
    by (simp add: renew_panic)
  have c: "fst (getSigningKey tv r jt s) = Return (Inr key) \<longrightarrow>
        (\<exists>ti. lookup (Claims jt) issuerClaimName = JStr ti \<and> ti \<noteq> [])
        \<and> fst (renewAndGetSigningKey tv r jt s') \<noteq> Panic"
    using getSigningKey_key_issuer [of tv r jt s key] by (auto simp: renew_panic)
  have d: "(\<forall>w w'. fst (decode_token (jwtParser tv) t w) = fst (decode_token (jwtParser tv) t w'))
       \<and> (\<forall>tok res w err. fst (verify_token (jwtParser tv) t tok res w) = Inl err
              \<and> signature_invalid err \<longrightarrow> (\<exists>k. res = Inr k))
       \<longrightarrow> fst (validate conv tv r t s) \<noteq> Panic"
    using validate_no_panic [of tv t conv r s] by blast
  have e: "(Header jt keyIDJwtHeaderName = None \<longrightarrow> getTokenKid jt = [])
   \<and> (Header jt keyIDJwtHeaderName = Some v \<and> as_string v = None \<longrightarrow> getTokenKid jt = [])
   \<and> (Header jt keyIDJwtHeaderName = Some (JStr kid) \<longrightarrow> getTokenKid jt = kid)"
    by (simp add: getTokenKid_def lookup_def)
  from a b c d e getSigningKey_no_panic [of tv r jt s] getSigningKey_kid [of i k s tv r jt]
    renew_kid [of i k s tv r jt]
  show ?thesis by blast
qed

text \<open>A token without issuer, the example token with the example parser, and headers without and with a non-string key identifier.\<close>

theorem renewal_issuer_assertion_witness:
  "as_string (lookup (Claims empty_token) issuerClaimName) = None
   \<and> fst (renewAndGetSigningKey example_validator () empty_token \<lparr>world = 0, trace = []\<rparr>) = Panic
   \<and> lookup (Claims example_token) issuerClaimName = JStr ''https://idp.example''
   \<and> fst (renewAndGetSigningKey example_validator () example_token \<lparr>world = 0, trace = []\<rparr>)
       \<noteq> Panic
   \<and> fst (getSigningKey example_validator () example_token \<lparr>world = 0, trace = []\<rparr>) =
       Return (Inr [1])
   \<and> fst (renewAndGetSigningKey example_validator () example_token \<lparr>world = 5, trace = []\<rparr>)
       \<noteq> Panic
   \<and> fst (validate id example_validator () ''good'' \<lparr>world = 0, trace = []\<rparr>) \<noteq> Panic
   \<and> Header empty_token keyIDJwtHeaderName = None
   \<and> getTokenKid empty_token = []
   \<and> Header no_subject_token keyIDJwtHeaderName = Some (JNum 7)
   \<and> getTokenKid no_subject_token = []
   \<and> Header example_token keyIDJwtHeaderName = Some (JStr ''k1'')
   \<and> getTokenKid example_token = ''k1''
   \<and> EvGetSigningKey ''https://idp.example'' ''k1''
        \<in> set (new_events \<lparr>world = 0, trace = []\<rparr>
                 (snd (getSigningKey example_validator () example_token \<lparr>world = 0, trace = []\<rparr>)))
   \<and> EvGetSigningKey ''https://idp.example'' ''k1''
        \<in> set (new_events \<lparr>world = 0, trace = []\<rparr>
                 (snd (renewAndGetSigningKey example_validator () example_token
                         \<lparr>world = 0, trace = []\<rparr>)))"
proof -
  let ?s = "\<lparr>world = 0 :: nat, trace = []\<rparr>"
  let ?s5 = "\<lparr>world = 5 :: nat, trace = []\<rparr>"
  have n: "as_string (lookup (Claims empty_token) issuerClaimName) = None"
    by (simp add: empty_token_def lookup_def)
  have l: "lookup (Claims example_token) issuerClaimName = JStr ''https://idp.example''"
    by (rule example_token_claims)
  have k: "fst (getSigningKey example_validator () example_token ?s) = Return (Inr [1])"
    by (simp add: example_first_pass)
  have det: "\<forall>w w'. fst (decode_token (jwtParser example_validator) ''good'' w) =
                    fst (decode_token (jwtParser example_validator) ''good'' w')"
    by (simp add: example_parser_fields)
  have sig: "\<forall>tok res w err.
      fst (verify_token (jwtParser example_validator) ''good'' tok res w) = Inl err
      \<and> signature_invalid err \<longrightarrow> (\<exists>k. res = Inr k)"
  proof (intro allI impI)
    fix tok :: token and res :: "string error + bytes" and w :: nat and err :: "string error"
    assume "fst (verify_token (jwtParser example_validator) ''good'' tok res w) = Inl err
      \<and> signature_invalid err"
    then show "\<exists>k. res = Inr k"
      by (cases res)
         (auto simp: example_parser_fields ValidationErrorSignatureInvalid_value)
  qed
  have h0: "Header empty_token keyIDJwtHeaderName = None"
    by (simp add: empty_token_def)
  have h1: "Header no_subject_token keyIDJwtHeaderName = Some (JNum 7)"
    by (simp add: no_subject_token_def keyIDJwtHeaderName_def)
  have h2: "Header example_token keyIDJwtHeaderName = Some (JStr ''k1'')"
    by (simp add: example_token_def keyIDJwtHeaderName_def)
  have m1: "EvGetSigningKey ''https://idp.example'' ''k1''
        \<in> set (new_events ?s (snd (getSigningKey example_validator () example_token ?s)))"
    by (simp add: example_first_pass new_events_def)
  have m2: "EvGetSigningKey ''https://idp.example'' ''k1''
        \<in> set (new_events ?s (snd (renewAndGetSigningKey example_validator () example_token ?s)))"
    by (simp add: example_renewal new_events_def)
  note t0 = renewal_issuer_assertion
    [where tv = example_validator and r = "()" and jt = empty_token and s = ?s]
  note t1 = renewal_issuer_assertion
    [where tv = example_validator and r = "()" and jt = example_token and s = ?s
       and iss = "''https://idp.example''" and key = "[1]" and s' = ?s5 and t = "''good''"
       and conv = id and kid = "''k1''" and i = "''https://idp.example''" and k = "''k1''"]
  note t2 = renewal_issuer_assertion
    [where tv = example_validator and r = "()" and jt = no_subject_token and s = ?s
       and v = "JNum 7"]
  have 1: "fst (renewAndGetSigningKey example_validator () empty_token ?s) = Panic"
    using t0 n by blast
  have 2: "fst (renewAndGetSigningKey example_validator () example_token ?s) \<noteq> Panic"
    using t1 l by blast
  have 3: "fst (renewAndGetSigningKey example_validator () example_token ?s5) \<noteq> Panic"
    using t1 k by blast
  have 4: "fst (validate id example_validator () ''good'' ?s) \<noteq> Panic"
    using t1 det sig by blast
  have 5: "getTokenKid empty_token = []"
    using t0 h0 by blast
  have a7: "as_string (JNum 7) = None" by simp
  have 6: "getTokenKid no_subject_token = []"
    using t2 h1 a7 by blast
  have 7: "getTokenKid example_token = ''k1''"
    using t1 h2 by blast
  from n 1 l 2 k 3 4 h0 5 h1 6 h2 7 m1 m2 show ?thesis by blast
qed

end
